theory Spec2Isabelle
  imports Complex_Main
begin

section \<open>Numbers\<close>

text \<open>
  The calculation engine of the generator-circuit-breaker sizing tool
  (\<^verbatim>\<open>utils/electricalCalculations\<close> and the \<^verbatim>\<open>ratings\<close> block of
  \<^verbatim>\<open>App.tsx\<close>) works on JavaScript numbers. They are read here as the real
  numbers they stand for, with exact arithmetic: \<^verbatim>\<open>Math.sqrt\<close> is \<open>sqrt\<close>,
  \<^verbatim>\<open>Math.exp\<close> is \<open>exp\<close>, \<^verbatim>\<open>Math.atan\<close> is \<open>arctan\<close>, \<^verbatim>\<open>Math.pow(x, 2)\<close> is
  \<open>x\<^sup>2\<close>, \<^verbatim>\<open>Math.ceil\<close> is the ceiling and \<^verbatim>\<open>Math.max\<close> is \<open>max\<close>.
  The source never guards a division. Where a divisor is zero JavaScript
  yields \<^verbatim>\<open>Infinity\<close> or \<^verbatim>\<open>NaN\<close>, which the reals do not have. The
  results below carry hypotheses, or are stated at inputs, under which no
  divisor is zero; only the statements that say which expression a field
  holds (the peak formulas, the flag, the rating rows) are made for every
  input.
\<close>

text \<open>
  \<^verbatim>\<open>Number(x.toFixed(2))\<close>: the decimal with two fraction digits nearest to
  \<open>x\<close>; of two equally near ones \<^verbatim>\<open>toFixed\<close> takes the larger in magnitude
  (it rounds \<open>\<bar>x\<bar>\<close> and puts the sign back). From \<open>10\<^sup>2\<^sup>1\<close> on \<^verbatim>\<open>toFixed\<close>
  prints the number itself; the numbers of that size are whole, and rounding
  leaves a whole number as it is (\<open>toFixed2_whole\<close> below).
\<close>

definition toFixed2 :: "real \<Rightarrow> real" where
  "toFixed2 x =
     (if x < 0 then - (of_int \<lfloor>(- x) * 100 + 1 / 2\<rfloor> / 100)
      else of_int \<lfloor>x * 100 + 1 / 2\<rfloor> / 100)"

section \<open>Data model\<close>

record GeneratorData =
  mva :: real
  voltageKv :: real
  powerFactor :: real
  subtransientReactanceXd :: real
  xrRatio :: real

record TransformerData =
  mva :: real
  impedanceZ :: real
  xrRatio :: real
  primaryVoltageKv :: real
  secondaryVoltageKv :: real

record SystemData =
  shortCircuitCapacityMva :: real
  xrRatio :: real

datatype FaultSource = System | Generator

record CalculationResult =
  source :: FaultSource
  symmetricalCurrentkA :: real
  dcComponentPercent :: real
  peakCurrentkA :: real
  asymmetricalCurrentkA :: real
  topOilRise :: "real option"
  breakingCapacityRequired :: real
  timeConstantMs :: real
  currentZerosSkipped :: bool

section \<open>Waveform sampler\<close>

record WaveformSample =
  time :: real
  current :: real
  dc :: real
  envelopePos :: real
  envelopeNeg :: real

text \<open>The object pushed by one pass of the loop of \<^verbatim>\<open>generateWaveformData\<close>.\<close>

definition waveformSample :: "real \<Rightarrow> real \<Rightarrow> real \<Rightarrow> real \<Rightarrow> WaveformSample" where
  "waveformSample iSym tauMs omega t =
     (let tSec = t / 1000;
          ac = sqrt 2 * iSym * sin (omega * tSec);
          dc = sqrt 2 * iSym * exp (- t / tauMs);
          total = ac + dc
      in \<lparr> time = t, current = total, dc = dc,
           envelopePos = dc + sqrt 2 * iSym, envelopeNeg = dc - sqrt 2 * iSym \<rparr>)"

text \<open>
  The loop \<^verbatim>\<open>for (let t = 0; t <= totalTime; t += 1)\<close>, with the array \<open>data\<close>
  passed along.
\<close>

function waveformLoop ::
  "real \<Rightarrow> real \<Rightarrow> real \<Rightarrow> real \<Rightarrow> WaveformSample list \<Rightarrow> real \<Rightarrow> WaveformSample list" where
  "waveformLoop iSym tauMs omega totalTime data t =
     (if t \<le> totalTime
      then waveformLoop iSym tauMs omega totalTime
             (data @ [waveformSample iSym tauMs omega t]) (t + 1)
      else data)"
  by pat_completeness auto
termination
proof (relation "measure (\<lambda>(iSym, tauMs, omega, totalTime, data, t). nat \<lceil>totalTime - t + 1\<rceil>)")
  show "wf (measure (\<lambda>(iSym :: real, tauMs :: real, omega :: real, totalTime :: real,
                       data :: WaveformSample list, t :: real). nat \<lceil>totalTime - t + 1\<rceil>))"
    by simp
next
  fix iSym tauMs omega totalTime :: real and data :: "WaveformSample list" and t :: real
  assume le: "t \<le> totalTime"
  have a: "totalTime - (t + 1) + 1 = totalTime - t"
    by simp
  have b: "\<lceil>totalTime - t + 1\<rceil> = \<lceil>totalTime - t\<rceil> + 1"
    by simp
  from le have "0 \<le> \<lceil>totalTime - t\<rceil>"
    by (simp add: zero_le_ceiling)
  then have "nat \<lceil>totalTime - (t + 1) + 1\<rceil> < nat \<lceil>totalTime - t + 1\<rceil>"
    unfolding a b by simp
  then show "((iSym, tauMs, omega, totalTime, data @ [waveformSample iSym tauMs omega t], t + 1),
              (iSym, tauMs, omega, totalTime, data, t))
             \<in> measure (\<lambda>(iSym, tauMs, omega, totalTime, data, t). nat \<lceil>totalTime - t + 1\<rceil>)"
    by (simp only: in_measure split_conv)
qed

text \<open>
  \<^verbatim>\<open>generateWaveformData(iSym, tauMs, freq = 60)\<close>. With \<open>freq = 0\<close> the bound
  \<^verbatim>\<open>5 * (1000 / freq)\<close> is \<^verbatim>\<open>Infinity\<close> and the loop does not end: the
  function returns nothing, which is \<open>None\<close> here.
\<close>

definition generateWaveformData :: "real \<Rightarrow> real \<Rightarrow> real \<Rightarrow> WaveformSample list option" where
  "generateWaveformData iSym tauMs freq =
     (if freq = 0 then None
      else (let omega = 2 * pi * freq;
                totalTime = 5 * (1000 / freq)
            in Some (waveformLoop iSym tauMs omega totalTime [] 0)))"

section \<open>Generator-source fault\<close>

text \<open>
  The constants that the body of \<^verbatim>\<open>calculateGeneratorSourceFault\<close> binds, at
  full precision, in the order of the source.
\<close>

record GenLocals =
  uBase :: real
  zBase :: real
  xdDoublePrimeOhms :: real
  rGen :: real
  zGen :: real
  iSym :: real
  tauMs :: real
  dcPercent :: real
  iDcKiloAmps :: real
  iAsymBreaking :: real
  iPeak :: real
  zerosSkipped :: bool

definition generatorSourceLocals :: "GeneratorData \<Rightarrow> real \<Rightarrow> GenLocals" where
  "generatorSourceLocals gen contactPartingTimeMs =
     (let uBase = voltageKv gen;
          sBase = GeneratorData.mva gen;
          zBase = uBase\<^sup>2 / sBase;
          xdDoublePrimeOhms = (subtransientReactanceXd gen / 100) * zBase;
          rGen = xdDoublePrimeOhms / GeneratorData.xrRatio gen;
          zGen = sqrt (rGen * rGen + xdDoublePrimeOhms * xdDoublePrimeOhms);
          iSym = uBase / (sqrt 3 * zGen);
          omega = 2 * pi * 60;
          tauMs = (xdDoublePrimeOhms / (omega * rGen)) * 1000;
          dcPercent = 100 * exp (- contactPartingTimeMs / tauMs);
          iDcKiloAmps = sqrt 2 * iSym * (dcPercent / 100);
          iAsymBreaking = sqrt (iSym\<^sup>2 + iDcKiloAmps\<^sup>2);
          iPeak = sqrt 2 * iSym * 2;
          currentZerosSkipped = (dcPercent > 100)
      in \<lparr> GenLocals.uBase = uBase, zBase = zBase,
           xdDoublePrimeOhms = xdDoublePrimeOhms, rGen = rGen, zGen = zGen,
           iSym = iSym, tauMs = tauMs, dcPercent = dcPercent,
           iDcKiloAmps = iDcKiloAmps, iAsymBreaking = iAsymBreaking,
           iPeak = iPeak, zerosSkipped = currentZerosSkipped \<rparr>)"

text \<open>The object that \<^verbatim>\<open>calculateGeneratorSourceFault\<close> returns.\<close>

definition calculateGeneratorSourceFault :: "GeneratorData \<Rightarrow> real \<Rightarrow> CalculationResult" where
  "calculateGeneratorSourceFault gen contactPartingTimeMs =
     (let l = generatorSourceLocals gen contactPartingTimeMs
      in \<lparr> source = Generator,
           symmetricalCurrentkA = toFixed2 (GenLocals.iSym l),
           dcComponentPercent = toFixed2 (GenLocals.dcPercent l),
           peakCurrentkA = toFixed2 (GenLocals.iPeak l),
           asymmetricalCurrentkA = toFixed2 (GenLocals.iAsymBreaking l),
           topOilRise = None,
           breakingCapacityRequired = toFixed2 (GenLocals.iAsymBreaking l),
           timeConstantMs = toFixed2 (GenLocals.tauMs l),
           currentZerosSkipped = zerosSkipped l \<rparr>)"

text \<open>The generator of the worked example: 100 MVA, 13.8 kV, Xd'' = 15 %, X/R = 30.\<close>

definition exampleGenerator :: GeneratorData where
  "exampleGenerator =
     \<lparr> GeneratorData.mva = 100, voltageKv = 13.8, powerFactor = 0.85,
       subtransientReactanceXd = 15, xrRatio = 30 \<rparr>"

section \<open>System-source fault\<close>

text \<open>
  The constants that the body of \<^verbatim>\<open>calculateSystemSourceFault\<close> binds, at
  full precision, in the order of the source. The parameter \<open>gen\<close> is unused
  there too, and so is the constant \<^verbatim>\<open>peakFactor\<close>.
\<close>

record SysLocals =
  uBase :: real
  rTotal :: real
  xTotal :: real
  zTotal :: real
  iSym :: real
  tauMs :: real
  dcPercent :: real
  iDcKiloAmps :: real
  iAsymBreaking :: real
  iPeak :: real

definition systemSourceLocals ::
  "GeneratorData \<Rightarrow> TransformerData \<Rightarrow> SystemData \<Rightarrow> real \<Rightarrow> SysLocals" where
  "systemSourceLocals gen gsu sys contactPartingTimeMs =
     (let uBase = secondaryVoltageKv gsu;
          zSysOhms = uBase\<^sup>2 / shortCircuitCapacityMva sys;
          zGsuOhms = (impedanceZ gsu / 100) * (uBase\<^sup>2 / TransformerData.mva gsu);
          thetaSys = arctan (SystemData.xrRatio sys);
          rSys = zSysOhms * cos thetaSys;
          xSys = zSysOhms * sin thetaSys;
          thetaGsu = arctan (TransformerData.xrRatio gsu);
          rGsu = zGsuOhms * cos thetaGsu;
          xGsu = zGsuOhms * sin thetaGsu;
          rTotal = rSys + rGsu;
          xTotal = xSys + xGsu;
          zTotal = sqrt (rTotal * rTotal + xTotal * xTotal);
          iSym = uBase / (sqrt 3 * zTotal);
          omega = 2 * pi * 60;
          tauMs = (xTotal / (omega * rTotal)) * 1000;
          dcPercent = 100 * exp (- contactPartingTimeMs / tauMs);
          iDcKiloAmps = sqrt 2 * iSym * (dcPercent / 100);
          iAsymBreaking = sqrt (iSym\<^sup>2 + iDcKiloAmps\<^sup>2);
          peakFactor = 1.02 + 0.98 * exp (- 3 / SystemData.xrRatio sys);
          iPeak = sqrt 2 * iSym * (1 + exp (- 10 / tauMs))
      in \<lparr> SysLocals.uBase = uBase, rTotal = rTotal, xTotal = xTotal, zTotal = zTotal,
           iSym = iSym, tauMs = tauMs, dcPercent = dcPercent,
           iDcKiloAmps = iDcKiloAmps, iAsymBreaking = iAsymBreaking, iPeak = iPeak \<rparr>)"

text \<open>The object that \<^verbatim>\<open>calculateSystemSourceFault\<close> returns.\<close>

definition calculateSystemSourceFault ::
  "GeneratorData \<Rightarrow> TransformerData \<Rightarrow> SystemData \<Rightarrow> real \<Rightarrow> CalculationResult" where
  "calculateSystemSourceFault gen gsu sys contactPartingTimeMs =
     (let l = systemSourceLocals gen gsu sys contactPartingTimeMs
      in \<lparr> source = System,
           symmetricalCurrentkA = toFixed2 (SysLocals.iSym l),
           dcComponentPercent = toFixed2 (SysLocals.dcPercent l),
           peakCurrentkA = toFixed2 (SysLocals.iPeak l),
           asymmetricalCurrentkA = toFixed2 (SysLocals.iAsymBreaking l),
           topOilRise = None,
           breakingCapacityRequired = toFixed2 (SysLocals.iAsymBreaking l),
           timeConstantMs = toFixed2 (SysLocals.tauMs l),
           currentZerosSkipped = False \<rparr>)"

section \<open>The fault solver as the specification words it\<close>

text \<open>
  The specification describes one solver \<open>solveFault(R, X, V_base, t, \<omega>)\<close> in steps
  1 to 5 and 7; step 6 gives one peak formula for each source. The record below
  holds the quantities of these steps; it is compared with the two functions of
  the source further down.
\<close>

record SolveFaultSpec =
  spec_Z :: real
  spec_I_sym :: real
  spec_tau_ms :: real
  spec_DC_percent :: real
  spec_I_dc :: real
  spec_I_asym :: real

definition solveFault_spec :: "real \<Rightarrow> real \<Rightarrow> real \<Rightarrow> real \<Rightarrow> real \<Rightarrow> SolveFaultSpec" where
  "solveFault_spec R X V_base t w =
     (let Z = sqrt (R\<^sup>2 + X\<^sup>2);
          I_sym = V_base / (sqrt 3 * Z);
          tau_ms = (X / (w * R)) * 1000;
          DC = 100 * exp (- t / tau_ms);
          I_dc = sqrt 2 * I_sym * (DC / 100);
          I_asym = sqrt (I_sym\<^sup>2 + I_dc\<^sup>2)
      in \<lparr> spec_Z = Z, spec_I_sym = I_sym, spec_tau_ms = tau_ms,
           spec_DC_percent = DC, spec_I_dc = I_dc, spec_I_asym = I_asym \<rparr>)"

text \<open>
  The impedance resolver of the specification, section 4.1: every impedance is
  referred to the generator-side voltage, split by its X/R ratio, and the parts
  are added; the generator gives its reactance and the resistance follows from
  the X/R ratio. Both return the pair \<open>(R, X)\<close>.
\<close>

definition resolveSystemPathImpedance_spec :: "TransformerData \<Rightarrow> SystemData \<Rightarrow> real \<times> real" where
  "resolveSystemPathImpedance_spec transformer system =
     (let V_base = secondaryVoltageKv transformer;
          Z_system = V_base\<^sup>2 / shortCircuitCapacityMva system;
          Z_transformer = (impedanceZ transformer / 100) * V_base\<^sup>2 / TransformerData.mva transformer;
          R_system = Z_system * cos (arctan (SystemData.xrRatio system));
          X_system = Z_system * sin (arctan (SystemData.xrRatio system));
          R_transformer = Z_transformer * cos (arctan (TransformerData.xrRatio transformer));
          X_transformer = Z_transformer * sin (arctan (TransformerData.xrRatio transformer))
      in (R_system + R_transformer, X_system + X_transformer))"

definition resolveGeneratorPathImpedance_spec :: "GeneratorData \<Rightarrow> real \<times> real" where
  "resolveGeneratorPathImpedance_spec generator =
     (let Z_base = (voltageKv generator)\<^sup>2 / GeneratorData.mva generator;
          X = (subtransientReactanceXd generator / 100) * Z_base;
          R = X / GeneratorData.xrRatio generator
      in (R, X))"

section \<open>Rating selection\<close>

text \<open>
  The \<^verbatim>\<open>ratings\<close> block of \<^verbatim>\<open>App.tsx\<close>. The standard list and the lookup
  \<^verbatim>\<open>stdBreakKA.find(k => k >= marginSymKA) || stdBreakKA[stdBreakKA.length - 1]\<close>
  are named so that the lookup can be stated on its own; \<^verbatim>\<open>||\<close> takes its right
  operand when \<^verbatim>\<open>find\<close> gives \<^verbatim>\<open>undefined\<close> and also when it gives 0.
\<close>

record RatingRow =
  calc :: real
  margin :: real
  selected :: real

record Ratings =
  continuous :: RatingRow
  sym :: RatingRow
  asym :: RatingRow
  peak :: RatingRow

definition stdBreakKA :: "real list" where
  "stdBreakKA = [31.5, 40, 50, 63, 72, 80, 90, 100, 120, 140, 160, 190, 200]"

definition selectSymKA :: "real \<Rightarrow> real" where
  "selectSymKA marginSymKA =
     (case find (\<lambda>k. k \<ge> marginSymKA) stdBreakKA of
        Some k \<Rightarrow> if k = 0 then stdBreakKA ! (length stdBreakKA - 1) else k
      | None \<Rightarrow> stdBreakKA ! (length stdBreakKA - 1))"

definition ratings ::
  "CalculationResult \<Rightarrow> CalculationResult \<Rightarrow> GeneratorData \<Rightarrow> real \<Rightarrow> Ratings" where
  "ratings sysResult genResult genData marginPercent =
     (let continuousCurrentA = (GeneratorData.mva genData * 1000) / (sqrt 3 * voltageKv genData);
          maxSymKA = max (symmetricalCurrentkA sysResult) (symmetricalCurrentkA genResult);
          maxAsymKA = max (asymmetricalCurrentkA sysResult) (asymmetricalCurrentkA genResult);
          maxPeakKA = max (peakCurrentkA sysResult) (peakCurrentkA genResult);
          marginFactor = 1 + (marginPercent / 100);
          marginContinuousA = continuousCurrentA * marginFactor;
          marginSymKA = maxSymKA * marginFactor;
          marginAsymKA = maxAsymKA * marginFactor;
          marginPeakKA = maxPeakKA * marginFactor;
          selectedCurrentA = of_int \<lceil>marginContinuousA / 500\<rceil> * 500;
          selectedSymKA = selectSymKA marginSymKA;
          derivedPeakKA = selectedSymKA * 2.74;
          derivedAsymKA = selectedSymKA * 1.732
      in \<lparr> continuous = \<lparr> calc = continuousCurrentA, margin = marginContinuousA,
                            selected = selectedCurrentA \<rparr>,
           sym = \<lparr> calc = maxSymKA, margin = marginSymKA, selected = selectedSymKA \<rparr>,
           asym = \<lparr> calc = maxAsymKA, margin = marginAsymKA, selected = derivedAsymKA \<rparr>,
           peak = \<lparr> calc = maxPeakKA, margin = marginPeakKA, selected = derivedPeakKA \<rparr> \<rparr>)"

text \<open>The step-up transformer and the grid that the application starts with.\<close>

definition exampleTransformer :: TransformerData where
  "exampleTransformer =
     \<lparr> TransformerData.mva = 120, impedanceZ = 10, xrRatio = 40,
       primaryVoltageKv = 154, secondaryVoltageKv = 13.8 \<rparr>"

definition exampleSystem :: SystemData where
  "exampleSystem = \<lparr> shortCircuitCapacityMva = 10000, xrRatio = 15 \<rparr>"

text \<open>A result object with the given symmetrical, asymmetrical and peak currents.\<close>

definition exampleResult :: "FaultSource \<Rightarrow> real \<Rightarrow> real \<Rightarrow> real \<Rightarrow> CalculationResult" where
  "exampleResult src symKA asymKA peakKA =
     \<lparr> source = src, symmetricalCurrentkA = symKA, dcComponentPercent = 50,
       peakCurrentkA = peakKA, asymmetricalCurrentkA = asymKA, topOilRise = None,
       breakingCapacityRequired = asymKA, timeConstantMs = 50, currentZerosSkipped = False \<rparr>"

section \<open>Rounding\<close>

lemma toFixed2_between:
  assumes "0 \<le> x" and "of_int n \<le> x * 100 + 1 / 2" and "x * 100 + 1 / 2 < of_int n + 1"
  shows "toFixed2 x = of_int n / 100"
proof -
  have "\<lfloor>x * 100 + 1 / 2\<rfloor> = n"
    using assms(2,3) by (simp add: floor_unique)
  with assms(1) show ?thesis
    by (simp add: toFixed2_def)
qed

lemma toFixed2_nonneg: "0 \<le> x \<Longrightarrow> 0 \<le> toFixed2 x"
  by (simp add: toFixed2_def)

lemma toFixed2_nonpos: "x \<le> 0 \<Longrightarrow> toFixed2 x \<le> 0"
  by (cases "x = 0") (simp_all add: toFixed2_def)

lemma toFixed2_mono:
  assumes "x \<le> y"
  shows "toFixed2 x \<le> toFixed2 y"
proof (cases "x < 0")
  case xneg: True
  show ?thesis
  proof (cases "y < 0")
    case True
    from assms have "\<lfloor>(- y) * 100 + 1 / 2\<rfloor> \<le> \<lfloor>(- x) * 100 + 1 / 2\<rfloor>"
      by (intro floor_mono) simp
    with xneg True show ?thesis
      by (simp add: toFixed2_def divide_right_mono)
  next
    case False
    then have "0 \<le> toFixed2 y" by (simp add: toFixed2_nonneg)
    moreover from xneg have "toFixed2 x \<le> 0" by (simp add: toFixed2_nonpos)
    ultimately show ?thesis by simp
  qed
next
  case False
  with assms have "\<not> y < 0" by simp
  moreover from assms have "\<lfloor>x * 100 + 1 / 2\<rfloor> \<le> \<lfloor>y * 100 + 1 / 2\<rfloor>"
    by (intro floor_mono) simp
  ultimately show ?thesis using False
    by (simp add: toFixed2_def divide_right_mono)
qed


lemma toFixed2_negative:
  assumes "x \<le> - (1 / 200)"
  shows "toFixed2 x < 0"
proof -
  from assms have "(1 :: real) \<le> (- x) * 100 + 1 / 2" by simp
  then have "1 \<le> \<lfloor>(- x) * 100 + 1 / 2\<rfloor>"
    by (simp add: le_floor_iff)
  then have "0 < (of_int \<lfloor>(- x) * 100 + 1 / 2\<rfloor> :: real) / 100" by simp
  moreover from assms have "x < 0" by simp
  ultimately show ?thesis by (simp add: toFixed2_def)
qed


lemma toFixed2_whole: "toFixed2 (of_int n) = of_int n"
proof (cases "n < 0")
  case True
  have "\<lfloor>(- of_int n) * 100 + 1 / 2 :: real\<rfloor> = - n * 100"
    by (rule floor_unique) simp_all
  then have "- (of_int \<lfloor>(- of_int n) * 100 + 1 / 2 :: real\<rfloor> / 100) = (of_int n :: real)"
    by simp
  with True show ?thesis
    unfolding toFixed2_def by simp
next
  case False
  have "\<lfloor>of_int n * 100 + 1 / 2 :: real\<rfloor> = n * 100"
    by (rule floor_unique) simp_all
  then have "of_int \<lfloor>of_int n * 100 + 1 / 2 :: real\<rfloor> / 100 = (of_int n :: real)"
    by simp
  with False show ?thesis
    unfolding toFixed2_def by simp
qed

lemma toFixed2_100: "toFixed2 100 = 100"
  using toFixed2_whole[of 100] by simp

lemma toFixed2_tiny:
  assumes "0 \<le> x" and "x < 1 / 200"
  shows "toFixed2 x = 0"
proof -
  from assms have "toFixed2 x = of_int 0 / 100"
    by (intro toFixed2_between) simp_all
  then show ?thesis by simp
qed

section \<open>The constants of the two functions, one by one\<close>

lemma gen_fields:
  "GenLocals.uBase (generatorSourceLocals g t) = voltageKv g"
  "zBase (generatorSourceLocals g t) = (voltageKv g)\<^sup>2 / GeneratorData.mva g"
  "xdDoublePrimeOhms (generatorSourceLocals g t)
     = (subtransientReactanceXd g / 100) * zBase (generatorSourceLocals g t)"
  "rGen (generatorSourceLocals g t)
     = xdDoublePrimeOhms (generatorSourceLocals g t) / GeneratorData.xrRatio g"
  "zGen (generatorSourceLocals g t)
     = sqrt (rGen (generatorSourceLocals g t) * rGen (generatorSourceLocals g t)
         + xdDoublePrimeOhms (generatorSourceLocals g t) * xdDoublePrimeOhms (generatorSourceLocals g t))"
  "GenLocals.iSym (generatorSourceLocals g t)
     = voltageKv g / (sqrt 3 * zGen (generatorSourceLocals g t))"
  "GenLocals.tauMs (generatorSourceLocals g t)
     = (xdDoublePrimeOhms (generatorSourceLocals g t)
          / (2 * pi * 60 * rGen (generatorSourceLocals g t))) * 1000"
  "GenLocals.dcPercent (generatorSourceLocals g t)
     = 100 * exp (- t / GenLocals.tauMs (generatorSourceLocals g t))"
  "GenLocals.iDcKiloAmps (generatorSourceLocals g t)
     = sqrt 2 * GenLocals.iSym (generatorSourceLocals g t)
         * (GenLocals.dcPercent (generatorSourceLocals g t) / 100)"
  "GenLocals.iAsymBreaking (generatorSourceLocals g t)
     = sqrt ((GenLocals.iSym (generatorSourceLocals g t))\<^sup>2
         + (GenLocals.iDcKiloAmps (generatorSourceLocals g t))\<^sup>2)"
  "GenLocals.iPeak (generatorSourceLocals g t)
     = sqrt 2 * GenLocals.iSym (generatorSourceLocals g t) * 2"
  "zerosSkipped (generatorSourceLocals g t)
     = (GenLocals.dcPercent (generatorSourceLocals g t) > 100)"
  by (simp_all only: generatorSourceLocals_def Let_def GenLocals.select_convs)

lemma gen_result_fields:
  "source (calculateGeneratorSourceFault g t) = Generator"
  "symmetricalCurrentkA (calculateGeneratorSourceFault g t)
     = toFixed2 (GenLocals.iSym (generatorSourceLocals g t))"
  "dcComponentPercent (calculateGeneratorSourceFault g t)
     = toFixed2 (GenLocals.dcPercent (generatorSourceLocals g t))"
  "peakCurrentkA (calculateGeneratorSourceFault g t)
     = toFixed2 (GenLocals.iPeak (generatorSourceLocals g t))"
  "asymmetricalCurrentkA (calculateGeneratorSourceFault g t)
     = toFixed2 (GenLocals.iAsymBreaking (generatorSourceLocals g t))"
  "breakingCapacityRequired (calculateGeneratorSourceFault g t)
     = toFixed2 (GenLocals.iAsymBreaking (generatorSourceLocals g t))"
  "timeConstantMs (calculateGeneratorSourceFault g t)
     = toFixed2 (GenLocals.tauMs (generatorSourceLocals g t))"
  "currentZerosSkipped (calculateGeneratorSourceFault g t)
     = zerosSkipped (generatorSourceLocals g t)"
  by (simp_all only: calculateGeneratorSourceFault_def Let_def CalculationResult.select_convs)

lemma gen_tauMs_indep:
  "GenLocals.tauMs (generatorSourceLocals g t) = GenLocals.tauMs (generatorSourceLocals g t')"
  by (simp only: generatorSourceLocals_def Let_def GenLocals.select_convs)

lemma dc_at_zero: "100 * exp (- 0 / tau) = (100 :: real)"
  by simp

lemma dc_nonincreasing:
  fixes tau t1 t2 :: real
  assumes "0 < tau" and "t1 \<le> t2"
  shows "100 * exp (- t2 / tau) \<le> 100 * exp (- t1 / tau)"
proof -
  from assms have "- t2 / tau \<le> - t1 / tau"
    by (simp add: divide_right_mono)
  then show ?thesis by simp
qed

lemma dc_le_100:
  fixes tau t :: real
  assumes "0 < tau" and "0 \<le> t"
  shows "100 * exp (- t / tau) \<le> 100"
proof -
  from assms have "- t / tau \<le> 0"
    by (simp add: divide_nonpos_pos)
  then have "exp (- t / tau) \<le> 1" by simp
  then show ?thesis by simp
qed

lemma tau_pos:
  fixes X R :: real
  assumes "0 < X" and "0 < R"
  shows "0 < (X / (2 * pi * 60 * R)) * 1000"
  using assms by simp

lemma sys_fields:
  "SysLocals.uBase (systemSourceLocals gen gsu sys t) = secondaryVoltageKv gsu"
  "rTotal (systemSourceLocals gen gsu sys t)
     = (secondaryVoltageKv gsu)\<^sup>2 / shortCircuitCapacityMva sys * cos (arctan (SystemData.xrRatio sys))
       + (impedanceZ gsu / 100) * ((secondaryVoltageKv gsu)\<^sup>2 / TransformerData.mva gsu)
           * cos (arctan (TransformerData.xrRatio gsu))"
  "xTotal (systemSourceLocals gen gsu sys t)
     = (secondaryVoltageKv gsu)\<^sup>2 / shortCircuitCapacityMva sys * sin (arctan (SystemData.xrRatio sys))
       + (impedanceZ gsu / 100) * ((secondaryVoltageKv gsu)\<^sup>2 / TransformerData.mva gsu)
           * sin (arctan (TransformerData.xrRatio gsu))"
  "zTotal (systemSourceLocals gen gsu sys t)
     = sqrt (rTotal (systemSourceLocals gen gsu sys t) * rTotal (systemSourceLocals gen gsu sys t)
         + xTotal (systemSourceLocals gen gsu sys t) * xTotal (systemSourceLocals gen gsu sys t))"
  "SysLocals.iSym (systemSourceLocals gen gsu sys t)
     = secondaryVoltageKv gsu / (sqrt 3 * zTotal (systemSourceLocals gen gsu sys t))"
  "SysLocals.tauMs (systemSourceLocals gen gsu sys t)
     = (xTotal (systemSourceLocals gen gsu sys t)
          / (2 * pi * 60 * rTotal (systemSourceLocals gen gsu sys t))) * 1000"
  "SysLocals.dcPercent (systemSourceLocals gen gsu sys t)
     = 100 * exp (- t / SysLocals.tauMs (systemSourceLocals gen gsu sys t))"
  "SysLocals.iDcKiloAmps (systemSourceLocals gen gsu sys t)
     = sqrt 2 * SysLocals.iSym (systemSourceLocals gen gsu sys t)
         * (SysLocals.dcPercent (systemSourceLocals gen gsu sys t) / 100)"
  "SysLocals.iAsymBreaking (systemSourceLocals gen gsu sys t)
     = sqrt ((SysLocals.iSym (systemSourceLocals gen gsu sys t))\<^sup>2
         + (SysLocals.iDcKiloAmps (systemSourceLocals gen gsu sys t))\<^sup>2)"
  "SysLocals.iPeak (systemSourceLocals gen gsu sys t)
     = sqrt 2 * SysLocals.iSym (systemSourceLocals gen gsu sys t)
         * (1 + exp (- 10 / SysLocals.tauMs (systemSourceLocals gen gsu sys t)))"
  by (simp_all only: systemSourceLocals_def Let_def SysLocals.select_convs)

lemma sys_result_fields:
  "source (calculateSystemSourceFault gen gsu sys t) = System"
  "symmetricalCurrentkA (calculateSystemSourceFault gen gsu sys t)
     = toFixed2 (SysLocals.iSym (systemSourceLocals gen gsu sys t))"
  "dcComponentPercent (calculateSystemSourceFault gen gsu sys t)
     = toFixed2 (SysLocals.dcPercent (systemSourceLocals gen gsu sys t))"
  "peakCurrentkA (calculateSystemSourceFault gen gsu sys t)
     = toFixed2 (SysLocals.iPeak (systemSourceLocals gen gsu sys t))"
  "asymmetricalCurrentkA (calculateSystemSourceFault gen gsu sys t)
     = toFixed2 (SysLocals.iAsymBreaking (systemSourceLocals gen gsu sys t))"
  "breakingCapacityRequired (calculateSystemSourceFault gen gsu sys t)
     = toFixed2 (SysLocals.iAsymBreaking (systemSourceLocals gen gsu sys t))"
  "timeConstantMs (calculateSystemSourceFault gen gsu sys t)
     = toFixed2 (SysLocals.tauMs (systemSourceLocals gen gsu sys t))"
  "currentZerosSkipped (calculateSystemSourceFault gen gsu sys t) = False"
  by (simp_all only: calculateSystemSourceFault_def Let_def CalculationResult.select_convs)

lemma sys_tauMs_indep:
  "SysLocals.tauMs (systemSourceLocals gen gsu sys t)
     = SysLocals.tauMs (systemSourceLocals gen gsu sys t')"
  by (simp only: systemSourceLocals_def Let_def SysLocals.select_convs)

lemma one_plus_square_pos: "0 < 1 + (x :: real)\<^sup>2"
  by (rule add_pos_nonneg) simp_all

lemma cos_arctan_pos: "0 < cos (arctan (x :: real))"
  using one_plus_square_pos[of x] by (simp add: cos_arctan)

lemma sin_arctan_pos: "0 < (x :: real) \<Longrightarrow> 0 < sin (arctan x)"
  using one_plus_square_pos[of x] by (simp add: sin_arctan)

lemma example_gen_xr:
  "xdDoublePrimeOhms (generatorSourceLocals exampleGenerator t) = 0.28566"
  "rGen (generatorSourceLocals exampleGenerator t) = 0.009522"
  by (simp_all add: generatorSourceLocals_def exampleGenerator_def Let_def power2_eq_square)

lemma example_gen_tau_pos: "0 < GenLocals.tauMs (generatorSourceLocals exampleGenerator t)"
  unfolding gen_fields(7) example_gen_xr by simp

lemma example_sys_rx_pos:
  "0 < rTotal (systemSourceLocals g exampleTransformer exampleSystem t)"
  "0 < xTotal (systemSourceLocals g exampleTransformer exampleSystem t)"
proof -
  have c: "0 < cos (arctan (15::real))" "0 < cos (arctan (40::real))"
    by (rule cos_arctan_pos)+
  have s: "0 < sin (arctan (15::real))" "0 < sin (arctan (40::real))"
    by (rule sin_arctan_pos, simp)+
  show "0 < rTotal (systemSourceLocals g exampleTransformer exampleSystem t)"
    unfolding sys_fields(2) using c
    by (simp add: exampleTransformer_def exampleSystem_def add_pos_pos)
  show "0 < xTotal (systemSourceLocals g exampleTransformer exampleSystem t)"
    unfolding sys_fields(3) using s
    by (simp add: exampleTransformer_def exampleSystem_def add_pos_pos)
qed

lemma example_sys_tau_pos:
  "0 < SysLocals.tauMs (systemSourceLocals g exampleTransformer exampleSystem t)"
  unfolding sys_fields(6) using example_sys_rx_pos[of g t] by simp


section \<open>The worked generator example\<close>

lemma exampleGenerator_iSym_bounds:
  "27.875 \<le> GenLocals.iSym (generatorSourceLocals exampleGenerator 50)
   \<and> GenLocals.iSym (generatorSourceLocals exampleGenerator 50) < 27.885"
proof -
  define a :: real where "a = 0.009522 * 0.009522 + 0.28566 * 0.28566"
  have "GenLocals.iSym (generatorSourceLocals exampleGenerator 50) = 13.8 / (sqrt 3 * sqrt a)"
    by (simp add: generatorSourceLocals_def exampleGenerator_def Let_def power2_eq_square a_def)
  also have "sqrt 3 * sqrt a = sqrt (3 * a)"
    by (simp only: real_sqrt_mult)
  finally have iS: "GenLocals.iSym (generatorSourceLocals exampleGenerator 50) = 13.8 / sqrt (3 * a)" .
  have up: "sqrt (3 * a) \<le> 13.8 / 27.875"
    by (rule real_le_lsqrt) (simp_all add: power2_eq_square a_def)
  have lo: "13.8 / 27.885 < sqrt (3 * a)"
    by (rule real_less_rsqrt) (simp add: power2_eq_square a_def)
  have pos: "0 < sqrt (3 * a)"
    by (simp add: a_def)
  from up pos have "27.875 \<le> 13.8 / sqrt (3 * a)"
    by (simp add: field_simps)
  moreover from lo pos have "13.8 / sqrt (3 * a) < 27.885"
    by (simp add: field_simps)
  ultimately show ?thesis
    unfolding iS by simp
qed

lemma exampleGenerator_iSym_rounded:
  "toFixed2 (GenLocals.iSym (generatorSourceLocals exampleGenerator 50)) = 27.88"
proof -
  have "toFixed2 (GenLocals.iSym (generatorSourceLocals exampleGenerator 50)) = of_int 2788 / 100"
    using exampleGenerator_iSym_bounds by (intro toFixed2_between) simp_all
  then show ?thesis by simp
qed

text \<open>
  Claim C2, as the code has it. For the generator 100 MVA, 13.8 kV, Xd'' = 15 %,
  X/R = 30 and a contact-parting time of 50 ms the intermediates are
  \<open>zBase = 1.9044\<close>, \<open>X = 0.28566\<close> and \<open>R = 0.009522\<close> ohm, as the specification
  says (to its digits), and the symmetrical current returned is 27.88 kA.
\<close>

theorem C2_example_symmetrical_current:
  "GenLocals.zBase (generatorSourceLocals exampleGenerator 50) = 1.9044
   \<and> GenLocals.xdDoublePrimeOhms (generatorSourceLocals exampleGenerator 50) = 0.28566
   \<and> GenLocals.rGen (generatorSourceLocals exampleGenerator 50) = 0.009522
   \<and> symmetricalCurrentkA (calculateGeneratorSourceFault exampleGenerator 50) = 27.88"
proof -
  have "GenLocals.zBase (generatorSourceLocals exampleGenerator 50) = 1.9044"
    and "GenLocals.xdDoublePrimeOhms (generatorSourceLocals exampleGenerator 50) = 0.28566"
    and "GenLocals.rGen (generatorSourceLocals exampleGenerator 50) = 0.009522"
    by (simp_all add: generatorSourceLocals_def exampleGenerator_def Let_def power2_eq_square)
  moreover have "symmetricalCurrentkA (calculateGeneratorSourceFault exampleGenerator 50) = 27.88"
    using exampleGenerator_iSym_rounded by (simp add: calculateGeneratorSourceFault_def Let_def)
  ultimately show ?thesis by simp
qed

text \<open>
  Claim C2, as the specification words it: the symmetrical current returned for
  the example is not within 1 kA of 24.17 kA.
\<close>

theorem C2_spec_value_counterexample:
  "\<not> \<bar>symmetricalCurrentkA (calculateGeneratorSourceFault exampleGenerator 50) - 24.17\<bar> < 1"
  using exampleGenerator_iSym_rounded by (simp add: calculateGeneratorSourceFault_def Let_def)

section \<open>The solver's formulas\<close>

lemma resolveSystemPathImpedance_spec_eq:
  "fst (resolveSystemPathImpedance_spec gsu sys) = rTotal (systemSourceLocals gen gsu sys t)"
  "snd (resolveSystemPathImpedance_spec gsu sys) = xTotal (systemSourceLocals gen gsu sys t)"
  unfolding sys_fields(2,3)
  by (simp_all only: resolveSystemPathImpedance_spec_def Let_def fst_conv snd_conv
      times_divide_eq_right)

lemma resolveGeneratorPathImpedance_spec_eq:
  "fst (resolveGeneratorPathImpedance_spec g) = rGen (generatorSourceLocals g t)"
  "snd (resolveGeneratorPathImpedance_spec g) = xdDoublePrimeOhms (generatorSourceLocals g t)"
  unfolding gen_fields(4) gen_fields(3) gen_fields(2)
  by (simp_all only: resolveGeneratorPathImpedance_spec_def Let_def fst_conv snd_conv)

lemma solveFault_spec_fields:
  "spec_Z (solveFault_spec R X V t w) = sqrt (R\<^sup>2 + X\<^sup>2)"
  "spec_I_sym (solveFault_spec R X V t w) = V / (sqrt 3 * spec_Z (solveFault_spec R X V t w))"
  "spec_tau_ms (solveFault_spec R X V t w) = (X / (w * R)) * 1000"
  "spec_DC_percent (solveFault_spec R X V t w)
     = 100 * exp (- t / spec_tau_ms (solveFault_spec R X V t w))"
  "spec_I_dc (solveFault_spec R X V t w)
     = sqrt 2 * spec_I_sym (solveFault_spec R X V t w)
         * (spec_DC_percent (solveFault_spec R X V t w) / 100)"
  "spec_I_asym (solveFault_spec R X V t w)
     = sqrt ((spec_I_sym (solveFault_spec R X V t w))\<^sup>2
         + (spec_I_dc (solveFault_spec R X V t w))\<^sup>2)"
  by (simp_all only: solveFault_spec_def Let_def SolveFaultSpec.select_convs)

lemma solveFault_spec_nonzero:
  assumes "R \<noteq> 0" and "X \<noteq> 0"
  shows "spec_Z (solveFault_spec R X V t (2 * pi * 60)) \<noteq> 0"
    and "spec_tau_ms (solveFault_spec R X V t (2 * pi * 60)) \<noteq> 0"
proof -
  from assms(1) show "spec_Z (solveFault_spec R X V t (2 * pi * 60)) \<noteq> 0"
    unfolding solveFault_spec_fields(1) by simp
  from assms show "spec_tau_ms (solveFault_spec R X V t (2 * pi * 60)) \<noteq> 0"
    unfolding solveFault_spec_fields(3) by simp
qed

lemma sys_locals_refine:
  "zTotal (systemSourceLocals gen gsu sys t)
     = spec_Z (solveFault_spec (rTotal (systemSourceLocals gen gsu sys t))
         (xTotal (systemSourceLocals gen gsu sys t)) (secondaryVoltageKv gsu) t (2 * pi * 60))"
  "SysLocals.iSym (systemSourceLocals gen gsu sys t)
     = spec_I_sym (solveFault_spec (rTotal (systemSourceLocals gen gsu sys t))
         (xTotal (systemSourceLocals gen gsu sys t)) (secondaryVoltageKv gsu) t (2 * pi * 60))"
  "SysLocals.tauMs (systemSourceLocals gen gsu sys t)
     = spec_tau_ms (solveFault_spec (rTotal (systemSourceLocals gen gsu sys t))
         (xTotal (systemSourceLocals gen gsu sys t)) (secondaryVoltageKv gsu) t (2 * pi * 60))"
  "SysLocals.dcPercent (systemSourceLocals gen gsu sys t)
     = spec_DC_percent (solveFault_spec (rTotal (systemSourceLocals gen gsu sys t))
         (xTotal (systemSourceLocals gen gsu sys t)) (secondaryVoltageKv gsu) t (2 * pi * 60))"
  "SysLocals.iDcKiloAmps (systemSourceLocals gen gsu sys t)
     = spec_I_dc (solveFault_spec (rTotal (systemSourceLocals gen gsu sys t))
         (xTotal (systemSourceLocals gen gsu sys t)) (secondaryVoltageKv gsu) t (2 * pi * 60))"
  "SysLocals.iAsymBreaking (systemSourceLocals gen gsu sys t)
     = spec_I_asym (solveFault_spec (rTotal (systemSourceLocals gen gsu sys t))
         (xTotal (systemSourceLocals gen gsu sys t)) (secondaryVoltageKv gsu) t (2 * pi * 60))"
  by (simp_all only: systemSourceLocals_def solveFault_spec_def Let_def power2_eq_square
      SysLocals.select_convs SolveFaultSpec.select_convs)

lemma gen_locals_refine:
  "zGen (generatorSourceLocals g t)
     = spec_Z (solveFault_spec (rGen (generatorSourceLocals g t))
         (xdDoublePrimeOhms (generatorSourceLocals g t)) (voltageKv g) t (2 * pi * 60))"
  "GenLocals.iSym (generatorSourceLocals g t)
     = spec_I_sym (solveFault_spec (rGen (generatorSourceLocals g t))
         (xdDoublePrimeOhms (generatorSourceLocals g t)) (voltageKv g) t (2 * pi * 60))"
  "GenLocals.tauMs (generatorSourceLocals g t)
     = spec_tau_ms (solveFault_spec (rGen (generatorSourceLocals g t))
         (xdDoublePrimeOhms (generatorSourceLocals g t)) (voltageKv g) t (2 * pi * 60))"
  "GenLocals.dcPercent (generatorSourceLocals g t)
     = spec_DC_percent (solveFault_spec (rGen (generatorSourceLocals g t))
         (xdDoublePrimeOhms (generatorSourceLocals g t)) (voltageKv g) t (2 * pi * 60))"
  "GenLocals.iDcKiloAmps (generatorSourceLocals g t)
     = spec_I_dc (solveFault_spec (rGen (generatorSourceLocals g t))
         (xdDoublePrimeOhms (generatorSourceLocals g t)) (voltageKv g) t (2 * pi * 60))"
  "GenLocals.iAsymBreaking (generatorSourceLocals g t)
     = spec_I_asym (solveFault_spec (rGen (generatorSourceLocals g t))
         (xdDoublePrimeOhms (generatorSourceLocals g t)) (voltageKv g) t (2 * pi * 60))"
  by (simp_all only: generatorSourceLocals_def solveFault_spec_def Let_def power2_eq_square
      GenLocals.select_convs SolveFaultSpec.select_convs)

lemma gen_impedance_nonzero:
  assumes "GeneratorData.mva g \<noteq> 0" and "voltageKv g \<noteq> 0"
    and "subtransientReactanceXd g \<noteq> 0" and "GeneratorData.xrRatio g \<noteq> 0"
  shows "fst (resolveGeneratorPathImpedance_spec g) \<noteq> 0"
    and "snd (resolveGeneratorPathImpedance_spec g) \<noteq> 0"
  using assms by (simp_all add: resolveGeneratorPathImpedance_spec_def Let_def)

lemma sys_impedance_zero_voltage:
  assumes "fst (resolveSystemPathImpedance_spec gsu sys) \<noteq> 0"
  shows "secondaryVoltageKv gsu \<noteq> 0"
proof
  assume "secondaryVoltageKv gsu = 0"
  then have "fst (resolveSystemPathImpedance_spec gsu sys) = 0"
    by (simp add: resolveSystemPathImpedance_spec_def Let_def)
  with assms show False by simp
qed

lemma spec_I_sym_nonzero:
  assumes "V \<noteq> 0" and "R \<noteq> 0"
  shows "spec_I_sym (solveFault_spec R X V t w) \<noteq> 0"
  using assms unfolding solveFault_spec_fields(2) solveFault_spec_fields(1) by simp


text \<open>
  Claim C1. Take an invocation in which no divisor of the source is zero, and
  let \<open>R\<close> and \<open>X\<close> be the resistance and reactance that the specification's
  resolver gives for its inputs. Then the function has resolved the same \<open>R\<close>
  and \<open>X\<close>, and its full-precision constants are those of the specification's
  steps 1 to 5 at the base voltage \<open>V\<close> and \<open>\<omega> = 2\<pi>\<cdot>60\<close>:
  \<open>|Z| = sqrt (R\<^sup>2 + X\<^sup>2)\<close>, \<open>I_sym = V / (\<surd>3\<cdot>|Z|)\<close>, \<open>\<tau> = (X / (\<omega>\<cdot>R))\<cdot>1000\<close>,
  \<open>DC% = 100\<cdot>exp (- t / \<tau>)\<close>, \<open>I_dc = \<surd>2\<cdot>I_sym\<cdot>(DC% / 100)\<close> and
  \<open>I_asym = sqrt (I_sym\<^sup>2 + I_dc\<^sup>2)\<close>, none of \<open>|Z|\<close>, \<open>I_sym\<close> and \<open>\<tau>\<close> being
  zero. Each magnitude of the returned object is one of these values, or the
  function's peak current, rounded to two decimals once, when the object is
  built. This holds for the system-source and for the generator-source
  function.
\<close>

theorem C1_solver_formulas:
  "(shortCircuitCapacityMva sys \<noteq> 0 \<and> TransformerData.mva gsu \<noteq> 0
      \<and> fst (resolveSystemPathImpedance_spec gsu sys) \<noteq> 0
      \<and> snd (resolveSystemPathImpedance_spec gsu sys) \<noteq> 0 \<longrightarrow>
    (let R = fst (resolveSystemPathImpedance_spec gsu sys);
         X = snd (resolveSystemPathImpedance_spec gsu sys);
         V = secondaryVoltageKv gsu;
         s = solveFault_spec R X V t (2 * pi * 60);
         l = systemSourceLocals gen gsu sys t;
         r = calculateSystemSourceFault gen gsu sys t
     in rTotal l = R \<and> xTotal l = X
        \<and> spec_Z s = sqrt (R\<^sup>2 + X\<^sup>2) \<and> spec_Z s \<noteq> 0
        \<and> spec_I_sym s = V / (sqrt 3 * spec_Z s) \<and> spec_I_sym s \<noteq> 0
        \<and> spec_tau_ms s = (X / (2 * pi * 60 * R)) * 1000 \<and> spec_tau_ms s \<noteq> 0
        \<and> spec_DC_percent s = 100 * exp (- t / spec_tau_ms s)
        \<and> spec_I_dc s = sqrt 2 * spec_I_sym s * (spec_DC_percent s / 100)
        \<and> spec_I_asym s = sqrt ((spec_I_sym s)\<^sup>2 + (spec_I_dc s)\<^sup>2)
        \<and> zTotal l = spec_Z s \<and> SysLocals.iSym l = spec_I_sym s
        \<and> SysLocals.tauMs l = spec_tau_ms s \<and> SysLocals.dcPercent l = spec_DC_percent s
        \<and> SysLocals.iDcKiloAmps l = spec_I_dc s \<and> SysLocals.iAsymBreaking l = spec_I_asym s
        \<and> symmetricalCurrentkA r = toFixed2 (spec_I_sym s)
        \<and> dcComponentPercent r = toFixed2 (spec_DC_percent s)
        \<and> asymmetricalCurrentkA r = toFixed2 (spec_I_asym s)
        \<and> breakingCapacityRequired r = toFixed2 (spec_I_asym s)
        \<and> timeConstantMs r = toFixed2 (spec_tau_ms s)
        \<and> peakCurrentkA r = toFixed2 (SysLocals.iPeak l)))
   \<and> (GeneratorData.mva g \<noteq> 0 \<and> voltageKv g \<noteq> 0 \<and> subtransientReactanceXd g \<noteq> 0
      \<and> GeneratorData.xrRatio g \<noteq> 0 \<longrightarrow>
    (let R = fst (resolveGeneratorPathImpedance_spec g);
         X = snd (resolveGeneratorPathImpedance_spec g);
         V = voltageKv g;
         s = solveFault_spec R X V t (2 * pi * 60);
         l = generatorSourceLocals g t;
         r = calculateGeneratorSourceFault g t
     in R \<noteq> 0 \<and> X \<noteq> 0 \<and> rGen l = R \<and> xdDoublePrimeOhms l = X
        \<and> spec_Z s = sqrt (R\<^sup>2 + X\<^sup>2) \<and> spec_Z s \<noteq> 0
        \<and> spec_I_sym s = V / (sqrt 3 * spec_Z s) \<and> spec_I_sym s \<noteq> 0
        \<and> spec_tau_ms s = (X / (2 * pi * 60 * R)) * 1000 \<and> spec_tau_ms s \<noteq> 0
        \<and> spec_DC_percent s = 100 * exp (- t / spec_tau_ms s)
        \<and> spec_I_dc s = sqrt 2 * spec_I_sym s * (spec_DC_percent s / 100)
        \<and> spec_I_asym s = sqrt ((spec_I_sym s)\<^sup>2 + (spec_I_dc s)\<^sup>2)
        \<and> zGen l = spec_Z s \<and> GenLocals.iSym l = spec_I_sym s
        \<and> GenLocals.tauMs l = spec_tau_ms s \<and> GenLocals.dcPercent l = spec_DC_percent s
        \<and> GenLocals.iDcKiloAmps l = spec_I_dc s \<and> GenLocals.iAsymBreaking l = spec_I_asym s
        \<and> symmetricalCurrentkA r = toFixed2 (spec_I_sym s)
        \<and> dcComponentPercent r = toFixed2 (spec_DC_percent s)
        \<and> asymmetricalCurrentkA r = toFixed2 (spec_I_asym s)
        \<and> breakingCapacityRequired r = toFixed2 (spec_I_asym s)
        \<and> timeConstantMs r = toFixed2 (spec_tau_ms s)
        \<and> peakCurrentkA r = toFixed2 (GenLocals.iPeak l)))"
proof (rule conjI; rule impI)
  let ?R = "fst (resolveSystemPathImpedance_spec gsu sys)"
  let ?X = "snd (resolveSystemPathImpedance_spec gsu sys)"
  let ?s = "solveFault_spec ?R ?X (secondaryVoltageKv gsu) t (2 * pi * 60)"
  let ?l = "systemSourceLocals gen gsu sys t"
  let ?r = "calculateSystemSourceFault gen gsu sys t"
  assume "shortCircuitCapacityMva sys \<noteq> 0 \<and> TransformerData.mva gsu \<noteq> 0 \<and> ?R \<noteq> 0 \<and> ?X \<noteq> 0"
  then have R: "?R \<noteq> 0" and X: "?X \<noteq> 0"
    by simp_all
  from R have V: "secondaryVoltageKv gsu \<noteq> 0"
    by (rule sys_impedance_zero_voltage)
  note imp = resolveSystemPathImpedance_spec_eq[of gsu sys gen t]
  note ref = sys_locals_refine[of gen gsu sys t, folded imp]
  have nz: "spec_Z ?s \<noteq> 0" "spec_tau_ms ?s \<noteq> 0"
    using R X by (rule solveFault_spec_nonzero)+
  have inz: "spec_I_sym ?s \<noteq> 0"
    using V R by (rule spec_I_sym_nonzero)
  have res: "symmetricalCurrentkA ?r = toFixed2 (spec_I_sym ?s)"
    "dcComponentPercent ?r = toFixed2 (spec_DC_percent ?s)"
    "asymmetricalCurrentkA ?r = toFixed2 (spec_I_asym ?s)"
    "breakingCapacityRequired ?r = toFixed2 (spec_I_asym ?s)"
    "timeConstantMs ?r = toFixed2 (spec_tau_ms ?s)"
    "peakCurrentkA ?r = toFixed2 (SysLocals.iPeak ?l)"
    unfolding sys_result_fields by (simp_all only: ref)
  show "let R = ?R; X = ?X; V = secondaryVoltageKv gsu;
         s = solveFault_spec R X V t (2 * pi * 60);
         l = systemSourceLocals gen gsu sys t;
         r = calculateSystemSourceFault gen gsu sys t
     in rTotal l = R \<and> xTotal l = X
        \<and> spec_Z s = sqrt (R\<^sup>2 + X\<^sup>2) \<and> spec_Z s \<noteq> 0
        \<and> spec_I_sym s = V / (sqrt 3 * spec_Z s) \<and> spec_I_sym s \<noteq> 0
        \<and> spec_tau_ms s = (X / (2 * pi * 60 * R)) * 1000 \<and> spec_tau_ms s \<noteq> 0
        \<and> spec_DC_percent s = 100 * exp (- t / spec_tau_ms s)
        \<and> spec_I_dc s = sqrt 2 * spec_I_sym s * (spec_DC_percent s / 100)
        \<and> spec_I_asym s = sqrt ((spec_I_sym s)\<^sup>2 + (spec_I_dc s)\<^sup>2)
        \<and> zTotal l = spec_Z s \<and> SysLocals.iSym l = spec_I_sym s
        \<and> SysLocals.tauMs l = spec_tau_ms s \<and> SysLocals.dcPercent l = spec_DC_percent s
        \<and> SysLocals.iDcKiloAmps l = spec_I_dc s \<and> SysLocals.iAsymBreaking l = spec_I_asym s
        \<and> symmetricalCurrentkA r = toFixed2 (spec_I_sym s)
        \<and> dcComponentPercent r = toFixed2 (spec_DC_percent s)
        \<and> asymmetricalCurrentkA r = toFixed2 (spec_I_asym s)
        \<and> breakingCapacityRequired r = toFixed2 (spec_I_asym s)
        \<and> timeConstantMs r = toFixed2 (spec_tau_ms s)
        \<and> peakCurrentkA r = toFixed2 (SysLocals.iPeak l)"
    unfolding Let_def
    by (intro conjI imp[symmetric] solveFault_spec_fields nz inz ref res)
next
  let ?R = "fst (resolveGeneratorPathImpedance_spec g)"
  let ?X = "snd (resolveGeneratorPathImpedance_spec g)"
  let ?s = "solveFault_spec ?R ?X (voltageKv g) t (2 * pi * 60)"
  let ?l = "generatorSourceLocals g t"
  let ?r = "calculateGeneratorSourceFault g t"
  assume h: "GeneratorData.mva g \<noteq> 0 \<and> voltageKv g \<noteq> 0 \<and> subtransientReactanceXd g \<noteq> 0
      \<and> GeneratorData.xrRatio g \<noteq> 0"
  then have R: "?R \<noteq> 0" and X: "?X \<noteq> 0"
    by (simp_all add: gen_impedance_nonzero)
  from h have V: "voltageKv g \<noteq> 0"
    by simp
  note imp = resolveGeneratorPathImpedance_spec_eq[of g t]
  note ref = gen_locals_refine[of g t, folded imp]
  have nz: "spec_Z ?s \<noteq> 0" "spec_tau_ms ?s \<noteq> 0"
    using R X by (rule solveFault_spec_nonzero)+
  have inz: "spec_I_sym ?s \<noteq> 0"
    using V R by (rule spec_I_sym_nonzero)
  have res: "symmetricalCurrentkA ?r = toFixed2 (spec_I_sym ?s)"
    "dcComponentPercent ?r = toFixed2 (spec_DC_percent ?s)"
    "asymmetricalCurrentkA ?r = toFixed2 (spec_I_asym ?s)"
    "breakingCapacityRequired ?r = toFixed2 (spec_I_asym ?s)"
    "timeConstantMs ?r = toFixed2 (spec_tau_ms ?s)"
    "peakCurrentkA ?r = toFixed2 (GenLocals.iPeak ?l)"
    unfolding gen_result_fields by (simp_all only: ref)
  show "let R = ?R; X = ?X; V = voltageKv g;
         s = solveFault_spec R X V t (2 * pi * 60);
         l = generatorSourceLocals g t;
         r = calculateGeneratorSourceFault g t
     in R \<noteq> 0 \<and> X \<noteq> 0 \<and> rGen l = R \<and> xdDoublePrimeOhms l = X
        \<and> spec_Z s = sqrt (R\<^sup>2 + X\<^sup>2) \<and> spec_Z s \<noteq> 0
        \<and> spec_I_sym s = V / (sqrt 3 * spec_Z s) \<and> spec_I_sym s \<noteq> 0
        \<and> spec_tau_ms s = (X / (2 * pi * 60 * R)) * 1000 \<and> spec_tau_ms s \<noteq> 0
        \<and> spec_DC_percent s = 100 * exp (- t / spec_tau_ms s)
        \<and> spec_I_dc s = sqrt 2 * spec_I_sym s * (spec_DC_percent s / 100)
        \<and> spec_I_asym s = sqrt ((spec_I_sym s)\<^sup>2 + (spec_I_dc s)\<^sup>2)
        \<and> zGen l = spec_Z s \<and> GenLocals.iSym l = spec_I_sym s
        \<and> GenLocals.tauMs l = spec_tau_ms s \<and> GenLocals.dcPercent l = spec_DC_percent s
        \<and> GenLocals.iDcKiloAmps l = spec_I_dc s \<and> GenLocals.iAsymBreaking l = spec_I_asym s
        \<and> symmetricalCurrentkA r = toFixed2 (spec_I_sym s)
        \<and> dcComponentPercent r = toFixed2 (spec_DC_percent s)
        \<and> asymmetricalCurrentkA r = toFixed2 (spec_I_asym s)
        \<and> breakingCapacityRequired r = toFixed2 (spec_I_asym s)
        \<and> timeConstantMs r = toFixed2 (spec_tau_ms s)
        \<and> peakCurrentkA r = toFixed2 (GenLocals.iPeak l)"
    unfolding Let_def
    by (intro conjI R X imp[symmetric] solveFault_spec_fields nz inz ref res)
qed

text \<open>
  The starting transformer and grid and the worked generator, at 50 ms: the
  symmetrical currents lie between 44.8 and 44.9 kA and between 27.875 and
  27.885 kA, and the generator's time constant is \<open>250 / \<pi>\<close> ms.
\<close>

lemma example_gen_tau: "GenLocals.tauMs (generatorSourceLocals exampleGenerator t) = 250 / pi"
  unfolding gen_fields(7) example_gen_xr by (simp add: field_simps)


lemma example_sys_rx:
  "rTotal (systemSourceLocals g exampleTransformer exampleSystem t)
     = 0.019044 * cos (arctan 15) + 0.1587 * cos (arctan 40)"
  "xTotal (systemSourceLocals g exampleTransformer exampleSystem t)
     = 0.019044 * sin (arctan 15) + 0.1587 * sin (arctan 40)"
  unfolding sys_fields(2,3)
  by (simp_all add: exampleTransformer_def exampleSystem_def power2_eq_square)

lemma arctan_15_40_bounds:
  "cos (arctan (15 :: real)) \<le> 1 / 15" "cos (arctan (40 :: real)) \<le> 1 / 40"
  "15 / 15.04 \<le> sin (arctan (15 :: real))" "40 / 40.02 \<le> sin (arctan (40 :: real))"
proof -
  have a: "15 \<le> sqrt (226 :: real)"
    by (rule real_le_rsqrt) simp
  have b: "sqrt (226 :: real) \<le> 15.04"
    by (rule real_le_lsqrt) (simp_all add: power2_eq_square)
  have c: "40 \<le> sqrt (1601 :: real)"
    by (rule real_le_rsqrt) simp
  have d: "sqrt (1601 :: real) \<le> 40.02"
    by (rule real_le_lsqrt) (simp_all add: power2_eq_square)
  have p: "0 < sqrt (226 :: real)" "0 < sqrt (1601 :: real)"
    by simp_all
  have "1 / sqrt (226 :: real) \<le> 1 / 15"
    using a by (intro divide_left_mono) simp_all
  then show "cos (arctan (15 :: real)) \<le> 1 / 15"
    by (simp add: cos_arctan)
  have "1 / sqrt (1601 :: real) \<le> 1 / 40"
    using c by (intro divide_left_mono) simp_all
  then show "cos (arctan (40 :: real)) \<le> 1 / 40"
    by (simp add: cos_arctan)
  have "15 / 15.04 \<le> 15 / sqrt (226 :: real)"
    using b p(1) by (intro divide_left_mono mult_pos_pos) simp_all
  then show "15 / 15.04 \<le> sin (arctan (15 :: real))"
    by (simp add: sin_arctan)
  have "40 / 40.02 \<le> 40 / sqrt (1601 :: real)"
    using d p(2) by (intro divide_left_mono mult_pos_pos) simp_all
  then show "40 / 40.02 \<le> sin (arctan (40 :: real))"
    by (simp add: sin_arctan)
qed

lemma weighted_bounds:
  fixes c d :: real
  shows "c \<le> 1 / 15 \<Longrightarrow> d \<le> 1 / 40 \<Longrightarrow> 0.019044 * c + 0.1587 * d \<le> 0.00524"
    and "15 / 15.04 \<le> c \<Longrightarrow> 40 / 40.02 \<le> d \<Longrightarrow> 0.1776 \<le> 0.019044 * c + 0.1587 * d"
    and "c \<le> 1 \<Longrightarrow> d \<le> 1 \<Longrightarrow> 0.019044 * c + 0.1587 * d \<le> 0.177744"
  by simp_all

lemma example_sys_iSym_bounds:
  "44.8 < SysLocals.iSym (systemSourceLocals g exampleTransformer exampleSystem t)
   \<and> SysLocals.iSym (systemSourceLocals g exampleTransformer exampleSystem t) < 44.9"
proof -
  let ?l = "systemSourceLocals g exampleTransformer exampleSystem t"
  have r0: "0 \<le> rTotal ?l"
    using example_sys_rx_pos(1)[of g t] by simp
  have r1: "rTotal ?l \<le> 0.00524"
    unfolding example_sys_rx by (rule weighted_bounds(1)) (rule arctan_15_40_bounds)+
  have x0: "0.1776 \<le> xTotal ?l"
    unfolding example_sys_rx by (rule weighted_bounds(2)) (rule arctan_15_40_bounds)+
  have x1: "xTotal ?l \<le> 0.177744"
    unfolding example_sys_rx by (rule weighted_bounds(3)) (rule sin_le_one)+
  have "xTotal ?l \<le> sqrt ((rTotal ?l)\<^sup>2 + (xTotal ?l)\<^sup>2)"
    by (rule real_sqrt_sum_squares_ge2)
  with x0 have z0: "0.1776 \<le> zTotal ?l"
    unfolding sys_fields(4) by (simp add: power2_eq_square)
  have "rTotal ?l * rTotal ?l \<le> 0.00524 * 0.00524"
    using r0 r1 by (intro mult_mono) simp_all
  moreover have "xTotal ?l * xTotal ?l \<le> 0.177744 * 0.177744"
    using x0 x1 by (intro mult_mono) simp_all
  ultimately have "rTotal ?l * rTotal ?l + xTotal ?l * xTotal ?l \<le> 0.17783\<^sup>2"
    by (simp add: power2_eq_square)
  then have z1: "zTotal ?l \<le> 0.17783"
    unfolding sys_fields(4) by (intro real_le_lsqrt) simp_all
  have s0: "1.732 \<le> sqrt 3"
    by (rule real_le_rsqrt) (simp add: power2_eq_square)
  have s1: "sqrt 3 \<le> 1.7321"
    by (rule real_le_lsqrt) (simp_all add: power2_eq_square)
  have d0: "1.732 * 0.1776 \<le> sqrt 3 * zTotal ?l"
    using s0 z0 by (intro mult_mono) simp_all
  have d1: "sqrt 3 * zTotal ?l \<le> 1.7321 * 0.17783"
    using s1 z1 z0 by (intro mult_mono) simp_all
  from d0 have dp: "0 < sqrt 3 * zTotal ?l"
    by simp
  from d1 have "44.8 * (sqrt 3 * zTotal ?l) < 13.8"
    by simp
  with dp have lo: "44.8 < 13.8 / (sqrt 3 * zTotal ?l)"
    by (simp only: pos_less_divide_eq)
  from d0 have "13.8 < 44.9 * (sqrt 3 * zTotal ?l)"
    by simp
  with dp have hi: "13.8 / (sqrt 3 * zTotal ?l) < 44.9"
    by (simp only: pos_divide_less_eq)
  have "SysLocals.iSym ?l = 13.8 / (sqrt 3 * zTotal ?l)"
    unfolding sys_fields(5) by (simp add: exampleTransformer_def)
  with lo hi show ?thesis
    by simp
qed

lemma example_gen_dc:
  "GenLocals.dcPercent (generatorSourceLocals exampleGenerator 50) = 100 * exp (- (pi / 5))"
  unfolding gen_fields(8) example_gen_tau by simp


theorem C1_solver_formulas_witness:
  "shortCircuitCapacityMva exampleSystem \<noteq> 0 \<and> TransformerData.mva exampleTransformer \<noteq> 0
   \<and> fst (resolveSystemPathImpedance_spec exampleTransformer exampleSystem) \<noteq> 0
   \<and> snd (resolveSystemPathImpedance_spec exampleTransformer exampleSystem) \<noteq> 0
   \<and> 44.8 < spec_I_sym (solveFault_spec
         (fst (resolveSystemPathImpedance_spec exampleTransformer exampleSystem))
         (snd (resolveSystemPathImpedance_spec exampleTransformer exampleSystem))
         (secondaryVoltageKv exampleTransformer) 50 (2 * pi * 60))
   \<and> spec_I_sym (solveFault_spec
         (fst (resolveSystemPathImpedance_spec exampleTransformer exampleSystem))
         (snd (resolveSystemPathImpedance_spec exampleTransformer exampleSystem))
         (secondaryVoltageKv exampleTransformer) 50 (2 * pi * 60)) < 44.9
   \<and> GeneratorData.mva exampleGenerator \<noteq> 0 \<and> voltageKv exampleGenerator \<noteq> 0
   \<and> subtransientReactanceXd exampleGenerator \<noteq> 0 \<and> GeneratorData.xrRatio exampleGenerator \<noteq> 0
   \<and> fst (resolveGeneratorPathImpedance_spec exampleGenerator) = 0.009522
   \<and> snd (resolveGeneratorPathImpedance_spec exampleGenerator) = 0.28566
   \<and> 27.875 \<le> spec_I_sym (solveFault_spec (fst (resolveGeneratorPathImpedance_spec exampleGenerator))
         (snd (resolveGeneratorPathImpedance_spec exampleGenerator))
         (voltageKv exampleGenerator) 50 (2 * pi * 60))
   \<and> spec_I_sym (solveFault_spec (fst (resolveGeneratorPathImpedance_spec exampleGenerator))
         (snd (resolveGeneratorPathImpedance_spec exampleGenerator))
         (voltageKv exampleGenerator) 50 (2 * pi * 60)) < 27.885
   \<and> spec_tau_ms (solveFault_spec (fst (resolveGeneratorPathImpedance_spec exampleGenerator))
         (snd (resolveGeneratorPathImpedance_spec exampleGenerator))
         (voltageKv exampleGenerator) 50 (2 * pi * 60)) = 250 / pi
   \<and> spec_DC_percent (solveFault_spec (fst (resolveGeneratorPathImpedance_spec exampleGenerator))
         (snd (resolveGeneratorPathImpedance_spec exampleGenerator))
         (voltageKv exampleGenerator) 50 (2 * pi * 60)) = 100 * exp (- (pi / 5))
   \<and> symmetricalCurrentkA (calculateGeneratorSourceFault exampleGenerator 50) = 27.88"
proof -
  let ?Rs = "fst (resolveSystemPathImpedance_spec exampleTransformer exampleSystem)"
  let ?Xs = "snd (resolveSystemPathImpedance_spec exampleTransformer exampleSystem)"
  let ?ss = "solveFault_spec ?Rs ?Xs (secondaryVoltageKv exampleTransformer) 50 (2 * pi * 60)"
  let ?Rg = "fst (resolveGeneratorPathImpedance_spec exampleGenerator)"
  let ?Xg = "snd (resolveGeneratorPathImpedance_spec exampleGenerator)"
  let ?sg = "solveFault_spec ?Rg ?Xg (voltageKv exampleGenerator) 50 (2 * pi * 60)"
  have hs: "shortCircuitCapacityMva exampleSystem \<noteq> 0 \<and> TransformerData.mva exampleTransformer \<noteq> 0
      \<and> ?Rs \<noteq> 0 \<and> ?Xs \<noteq> 0"
    using example_sys_rx_pos[of exampleGenerator 50]
    unfolding resolveSystemPathImpedance_spec_eq[of exampleTransformer exampleSystem exampleGenerator 50]
    by (simp add: exampleSystem_def exampleTransformer_def)
  have hg: "GeneratorData.mva exampleGenerator \<noteq> 0 \<and> voltageKv exampleGenerator \<noteq> 0
      \<and> subtransientReactanceXd exampleGenerator \<noteq> 0 \<and> GeneratorData.xrRatio exampleGenerator \<noteq> 0"
    by (simp add: exampleGenerator_def)
  note T = C1_solver_formulas[of exampleSystem exampleTransformer 50 exampleGenerator exampleGenerator,
      unfolded Let_def]
  from T hs have s: "SysLocals.iSym (systemSourceLocals exampleGenerator exampleTransformer exampleSystem 50)
      = spec_I_sym ?ss"
    by blast
  from T hg have g: "rGen (generatorSourceLocals exampleGenerator 50) = ?Rg"
    "xdDoublePrimeOhms (generatorSourceLocals exampleGenerator 50) = ?Xg"
    "GenLocals.iSym (generatorSourceLocals exampleGenerator 50) = spec_I_sym ?sg"
    "GenLocals.tauMs (generatorSourceLocals exampleGenerator 50) = spec_tau_ms ?sg"
    "GenLocals.dcPercent (generatorSourceLocals exampleGenerator 50) = spec_DC_percent ?sg"
    "symmetricalCurrentkA (calculateGeneratorSourceFault exampleGenerator 50) = toFixed2 (spec_I_sym ?sg)"
    by blast+
  note sb = example_sys_iSym_bounds[of exampleGenerator 50, unfolded s]
  note gb = exampleGenerator_iSym_bounds[unfolded g(3)]
  note gr = exampleGenerator_iSym_rounded[unfolded g(3), folded g(6)]
  note gx = example_gen_xr[of 50, unfolded g(1,2)]
  note gt = example_gen_tau[of 50, unfolded g(4)]
  note gd = example_gen_dc[unfolded g(5)]
  from hs hg sb gb gr gx gt gd show ?thesis
    by blast
qed

lemma peak_factor_below_two:
  fixes tau :: real
  assumes "0 < tau"
  shows "1 + exp (- 10 / tau) < 2"
proof -
  from assms have "- 10 / tau < 0"
    by (simp add: divide_neg_pos)
  then have "exp (- 10 / tau) < 1"
    by simp
  then show ?thesis
    by simp
qed

lemma example_sys_iSym_pos:
  "0 < SysLocals.iSym (systemSourceLocals g exampleTransformer exampleSystem t)"
proof -
  let ?l = "systemSourceLocals g exampleTransformer exampleSystem t"
  have "0 < rTotal ?l * rTotal ?l + xTotal ?l * xTotal ?l"
    using example_sys_rx_pos[of g t] by (intro add_pos_pos mult_pos_pos)
  then have "0 < zTotal ?l"
    unfolding sys_fields(4) by simp
  then have "0 < sqrt 3 * zTotal ?l"
    by simp
  moreover have "0 < secondaryVoltageKv exampleTransformer"
    by (simp add: exampleTransformer_def)
  ultimately show ?thesis
    unfolding sys_fields(5) by (rule divide_pos_pos[rotated])
qed


text \<open>
  Claim C5. The peak current of the system-source function is
  \<open>\<surd>2\<cdot>I_sym\<cdot>(1 + exp (- 10 / \<tau>))\<close>, that of the generator-source function
  is \<open>\<surd>2\<cdot>I_sym\<cdot>2\<close>; each is returned rounded to two decimals. The two
  formulas differ: with a positive time constant and a positive symmetrical
  current the first stays below \<open>\<surd>2\<cdot>I_sym\<cdot>2\<close>.
\<close>

theorem C5_peak_formulas:
  "(let l = systemSourceLocals gen gsu sys t
    in SysLocals.iPeak l = sqrt 2 * SysLocals.iSym l * (1 + exp (- 10 / SysLocals.tauMs l))
       \<and> peakCurrentkA (calculateSystemSourceFault gen gsu sys t) = toFixed2 (SysLocals.iPeak l)
       \<and> (0 < SysLocals.tauMs l \<and> 0 < SysLocals.iSym l \<longrightarrow>
             SysLocals.iPeak l < sqrt 2 * SysLocals.iSym l * 2))
   \<and> (let l = generatorSourceLocals g t
    in GenLocals.iPeak l = sqrt 2 * GenLocals.iSym l * 2
       \<and> peakCurrentkA (calculateGeneratorSourceFault g t) = toFixed2 (GenLocals.iPeak l))"
  unfolding Let_def
proof (intro conjI impI)
  let ?l = "systemSourceLocals gen gsu sys t"
  assume "0 < SysLocals.tauMs ?l \<and> 0 < SysLocals.iSym ?l"
  then have "1 + exp (- 10 / SysLocals.tauMs ?l) < 2" and "0 < sqrt 2 * SysLocals.iSym ?l"
    by (simp_all add: peak_factor_below_two)
  then have "sqrt 2 * SysLocals.iSym ?l * (1 + exp (- 10 / SysLocals.tauMs ?l))
               < sqrt 2 * SysLocals.iSym ?l * 2"
    by (simp only: mult_strict_left_mono)
  then show "SysLocals.iPeak ?l < sqrt 2 * SysLocals.iSym ?l * 2"
    by (simp only: sys_fields(10))
qed (simp_all only: sys_fields(10) gen_fields(11) sys_result_fields(4) gen_result_fields(4))


text \<open>The worked generator and the starting transformer and grid, at 50 ms.\<close>

theorem C5_peak_formulas_witness:
  "0 < SysLocals.tauMs (systemSourceLocals exampleGenerator exampleTransformer exampleSystem 50)
   \<and> 0 < SysLocals.iSym (systemSourceLocals exampleGenerator exampleTransformer exampleSystem 50)
   \<and> SysLocals.iPeak (systemSourceLocals exampleGenerator exampleTransformer exampleSystem 50)
       < sqrt 2 * SysLocals.iSym (systemSourceLocals exampleGenerator exampleTransformer exampleSystem 50) * 2
   \<and> GenLocals.iPeak (generatorSourceLocals exampleGenerator 50)
       = sqrt 2 * GenLocals.iSym (generatorSourceLocals exampleGenerator 50) * 2"
  using C5_peak_formulas[of exampleGenerator exampleTransformer exampleSystem 50 exampleGenerator,
      unfolded Let_def]
    example_sys_tau_pos[of exampleGenerator 50] example_sys_iSym_pos[of exampleGenerator 50]
  by blast

text \<open>
  Claim C6. The generator-source result has \<open>currentZerosSkipped\<close> set exactly
  when the full-precision DC percentage \<open>100\<cdot>exp (- t / \<tau>)\<close> is above 100; the
  system-source result never has it set.
\<close>

theorem C6_zero_skip_flag:
  "currentZerosSkipped (calculateGeneratorSourceFault g t)
     = (GenLocals.dcPercent (generatorSourceLocals g t) > 100)
   \<and> GenLocals.dcPercent (generatorSourceLocals g t)
     = 100 * exp (- t / GenLocals.tauMs (generatorSourceLocals g t))
   \<and> currentZerosSkipped (calculateSystemSourceFault gen gsu sys t) = False"
  by (simp only: generatorSourceLocals_def
      calculateSystemSourceFault_def calculateGeneratorSourceFault_def Let_def
      GenLocals.select_convs CalculationResult.select_convs simp_thms)

section \<open>Derived ratings\<close>

text \<open>
  Claim C4. The selected asymmetrical rating is the selected symmetrical rating
  times 1.732 and the selected peak rating is the selected symmetrical rating
  times 2.74. The calculated columns of both rows are the larger of the system
  and generator results, and the margin columns are these times the margin
  factor; neither refers to the symmetrical selection.
\<close>

theorem C4_derived_ratings:
  "(let r = ratings sysResult genResult genData marginPercent
    in selected (asym r) = selected (sym r) * 1.732
       \<and> selected (peak r) = selected (sym r) * 2.74
       \<and> calc (asym r) = max (asymmetricalCurrentkA sysResult) (asymmetricalCurrentkA genResult)
       \<and> margin (asym r) = calc (asym r) * (1 + marginPercent / 100)
       \<and> calc (peak r) = max (peakCurrentkA sysResult) (peakCurrentkA genResult)
       \<and> margin (peak r) = calc (peak r) * (1 + marginPercent / 100))"
  by (simp add: ratings_def Let_def)

section \<open>Decay of the DC component\<close>

text \<open>
  Claim C7, as the code has it. The time constant does not depend on the
  contact-parting time. Where it is positive, the DC percentage is exactly 100
  at parting time 0, and at a later parting time it is at most what it is at
  an earlier one; this holds for the full-precision value and for the value
  returned, in both source functions.
\<close>

theorem C7_dc_percent_nonincreasing:
  "(0 < GenLocals.tauMs (generatorSourceLocals g 0) \<longrightarrow>
      GenLocals.dcPercent (generatorSourceLocals g 0) = 100
      \<and> dcComponentPercent (calculateGeneratorSourceFault g 0) = 100)
   \<and> (0 < GenLocals.tauMs (generatorSourceLocals g t1) \<and> t1 \<le> t2 \<longrightarrow>
      GenLocals.tauMs (generatorSourceLocals g t2) = GenLocals.tauMs (generatorSourceLocals g t1)
      \<and> GenLocals.dcPercent (generatorSourceLocals g t2)
          \<le> GenLocals.dcPercent (generatorSourceLocals g t1)
      \<and> dcComponentPercent (calculateGeneratorSourceFault g t2)
          \<le> dcComponentPercent (calculateGeneratorSourceFault g t1))
   \<and> (0 < SysLocals.tauMs (systemSourceLocals gen gsu sys 0) \<longrightarrow>
      SysLocals.dcPercent (systemSourceLocals gen gsu sys 0) = 100
      \<and> dcComponentPercent (calculateSystemSourceFault gen gsu sys 0) = 100)
   \<and> (0 < SysLocals.tauMs (systemSourceLocals gen gsu sys t1) \<and> t1 \<le> t2 \<longrightarrow>
      SysLocals.tauMs (systemSourceLocals gen gsu sys t2)
        = SysLocals.tauMs (systemSourceLocals gen gsu sys t1)
      \<and> SysLocals.dcPercent (systemSourceLocals gen gsu sys t2)
          \<le> SysLocals.dcPercent (systemSourceLocals gen gsu sys t1)
      \<and> dcComponentPercent (calculateSystemSourceFault gen gsu sys t2)
          \<le> dcComponentPercent (calculateSystemSourceFault gen gsu sys t1))"
proof (intro conjI impI)
  show g0: "GenLocals.dcPercent (generatorSourceLocals g 0) = 100"
    unfolding gen_fields(8) by (rule dc_at_zero)
  show "dcComponentPercent (calculateGeneratorSourceFault g 0) = 100"
    unfolding gen_result_fields(3) g0 by (rule toFixed2_100)
  show s0: "SysLocals.dcPercent (systemSourceLocals gen gsu sys 0) = 100"
    unfolding sys_fields(7) by (rule dc_at_zero)
  show "dcComponentPercent (calculateSystemSourceFault gen gsu sys 0) = 100"
    unfolding sys_result_fields(3) s0 by (rule toFixed2_100)
  show "GenLocals.tauMs (generatorSourceLocals g t2) = GenLocals.tauMs (generatorSourceLocals g t1)"
    by (rule gen_tauMs_indep)
  show "SysLocals.tauMs (systemSourceLocals gen gsu sys t2)
          = SysLocals.tauMs (systemSourceLocals gen gsu sys t1)"
    by (rule sys_tauMs_indep)
next
  assume "0 < GenLocals.tauMs (generatorSourceLocals g t1) \<and> t1 \<le> t2"
  then have pos: "0 < GenLocals.tauMs (generatorSourceLocals g t1)" and le: "t1 \<le> t2"
    by simp_all
  have "GenLocals.dcPercent (generatorSourceLocals g t2)
          = 100 * exp (- t2 / GenLocals.tauMs (generatorSourceLocals g t1))"
    unfolding gen_fields(8) by (simp only: gen_tauMs_indep[of g t2 t1])
  also have "\<dots> \<le> 100 * exp (- t1 / GenLocals.tauMs (generatorSourceLocals g t1))"
    by (rule dc_nonincreasing[OF pos le])
  also have "\<dots> = GenLocals.dcPercent (generatorSourceLocals g t1)"
    by (simp only: gen_fields(8))
  finally show u: "GenLocals.dcPercent (generatorSourceLocals g t2)
                  \<le> GenLocals.dcPercent (generatorSourceLocals g t1)" .
  show "dcComponentPercent (calculateGeneratorSourceFault g t2)
          \<le> dcComponentPercent (calculateGeneratorSourceFault g t1)"
    unfolding gen_result_fields(3) using u by (rule toFixed2_mono)
next
  assume "0 < SysLocals.tauMs (systemSourceLocals gen gsu sys t1) \<and> t1 \<le> t2"
  then have pos: "0 < SysLocals.tauMs (systemSourceLocals gen gsu sys t1)" and le: "t1 \<le> t2"
    by simp_all
  have "SysLocals.dcPercent (systemSourceLocals gen gsu sys t2)
          = 100 * exp (- t2 / SysLocals.tauMs (systemSourceLocals gen gsu sys t1))"
    unfolding sys_fields(7) by (simp only: sys_tauMs_indep[of gen gsu sys t2 t1])
  also have "\<dots> \<le> 100 * exp (- t1 / SysLocals.tauMs (systemSourceLocals gen gsu sys t1))"
    by (rule dc_nonincreasing[OF pos le])
  also have "\<dots> = SysLocals.dcPercent (systemSourceLocals gen gsu sys t1)"
    by (simp only: sys_fields(7))
  finally show u: "SysLocals.dcPercent (systemSourceLocals gen gsu sys t2)
                  \<le> SysLocals.dcPercent (systemSourceLocals gen gsu sys t1)" .
  show "dcComponentPercent (calculateSystemSourceFault gen gsu sys t2)
          \<le> dcComponentPercent (calculateSystemSourceFault gen gsu sys t1)"
    unfolding sys_result_fields(3) using u by (rule toFixed2_mono)
qed


text \<open>The worked generator and the starting transformer and grid, at 10 ms and 50 ms.\<close>

theorem C7_dc_percent_nonincreasing_witness:
  "0 < GenLocals.tauMs (generatorSourceLocals exampleGenerator 10)
   \<and> (10 :: real) \<le> 50
   \<and> dcComponentPercent (calculateGeneratorSourceFault exampleGenerator 0) = 100
   \<and> dcComponentPercent (calculateGeneratorSourceFault exampleGenerator 50)
       \<le> dcComponentPercent (calculateGeneratorSourceFault exampleGenerator 10)
   \<and> 0 < SysLocals.tauMs (systemSourceLocals exampleGenerator exampleTransformer exampleSystem 10)
   \<and> dcComponentPercent (calculateSystemSourceFault exampleGenerator exampleTransformer exampleSystem 0) = 100
   \<and> dcComponentPercent (calculateSystemSourceFault exampleGenerator exampleTransformer exampleSystem 50)
       \<le> dcComponentPercent (calculateSystemSourceFault exampleGenerator exampleTransformer exampleSystem 10)"
proof -
  have le: "(10 :: real) \<le> 50"
    by simp
  note gpos = example_gen_tau_pos[of 0] example_gen_tau_pos[of 10]
  note spos = example_sys_tau_pos[of exampleGenerator 0] example_sys_tau_pos[of exampleGenerator 10]
  from C7_dc_percent_nonincreasing[of exampleGenerator 10 50 exampleGenerator exampleTransformer exampleSystem]
    le gpos spos
  show ?thesis
    by blast
qed

text \<open>
  From 2000 ms on the DC percentage of the worked generator is below 0.005 and
  is returned as 0.
\<close>

lemma exp_16_large: "(65536 :: real) \<le> exp 16"
proof -
  have "(2 :: real) \<le> exp 1"
    using exp_ge_add_one_self[of "1 :: real"] by simp
  then have "(2 :: real) ^ 16 \<le> exp 1 ^ 16"
    by (rule power_mono) simp
  also have "exp (1 :: real) ^ 16 = exp (of_nat 16 * 1)"
    by (simp only: exp_of_nat_mult)
  finally show ?thesis by simp
qed

lemma dc_tiny:
  fixes y :: real
  assumes "16 \<le> y"
  shows "0 \<le> 100 * exp (- y)" and "100 * exp (- y) < 1 / 200"
proof -
  show "0 \<le> 100 * exp (- y)" by simp
  from assms have "exp 16 \<le> exp y" by simp
  with exp_16_large have "65536 \<le> exp y" by (rule order_trans)
  then have "exp (- y) \<le> 1 / 65536"
    by (simp add: exp_minus field_simps)
  then show "100 * exp (- y) < 1 / 200" by simp
qed


lemma example_gen_late_dc:
  assumes "2000 \<le> t"
  shows "dcComponentPercent (calculateGeneratorSourceFault exampleGenerator t) = 0"
proof -
  have "16 * 250 \<le> t * 2" using assms by simp
  also have "t * 2 \<le> t * pi"
    using assms pi_ge_two by (intro mult_left_mono) simp_all
  finally have "16 \<le> t * pi / 250" by simp
  then have "16 \<le> t / (250 / pi)" by simp
  then have "0 \<le> 100 * exp (- (t / (250 / pi)))" and "100 * exp (- (t / (250 / pi))) < 1 / 200"
    by (rule dc_tiny)+
  then have "toFixed2 (100 * exp (- (t / (250 / pi)))) = 0"
    by (rule toFixed2_tiny)
  then show ?thesis
    unfolding gen_result_fields(3) gen_fields(8) example_gen_tau by simp
qed


text \<open>
  Claim C7, as the specification words it: with a positive time constant the
  DC percentage returned at 3000 ms is not below the one returned at 2000 ms,
  and likewise at 70000 ms and 60000 ms.
\<close>

theorem C7_returned_dc_plateau_counterexample:
  "0 < GenLocals.tauMs (generatorSourceLocals exampleGenerator 2000)
   \<and> GenLocals.tauMs (generatorSourceLocals exampleGenerator 3000)
       = GenLocals.tauMs (generatorSourceLocals exampleGenerator 2000)
   \<and> (2000 :: real) < 3000
   \<and> \<not> dcComponentPercent (calculateGeneratorSourceFault exampleGenerator 3000)
         < dcComponentPercent (calculateGeneratorSourceFault exampleGenerator 2000)
   \<and> dcComponentPercent (calculateGeneratorSourceFault exampleGenerator 2000) = 0
   \<and> dcComponentPercent (calculateGeneratorSourceFault exampleGenerator 3000) = 0
   \<and> dcComponentPercent (calculateGeneratorSourceFault exampleGenerator 60000) = 0
   \<and> dcComponentPercent (calculateGeneratorSourceFault exampleGenerator 70000) = 0"
  using example_gen_tau_pos[of 2000] gen_tauMs_indep[of exampleGenerator 3000 2000]
    example_gen_late_dc[of 2000] example_gen_late_dc[of 3000]
    example_gen_late_dc[of 60000] example_gen_late_dc[of 70000]
  by simp


section \<open>Delayed current zeros\<close>

lemma gen_positive_impedance:
  assumes "0 < GeneratorData.mva g" and "0 < voltageKv g"
    and "0 < subtransientReactanceXd g" and "0 < GeneratorData.xrRatio g"
  shows "0 < xdDoublePrimeOhms (generatorSourceLocals g t)"
    and "0 < rGen (generatorSourceLocals g t)"
proof -
  from assms(1,2) have z: "0 < zBase (generatorSourceLocals g t)"
    unfolding gen_fields(2) by simp
  with assms(3) show x: "0 < xdDoublePrimeOhms (generatorSourceLocals g t)"
    unfolding gen_fields(3) by simp
  with assms(4) show "0 < rGen (generatorSourceLocals g t)"
    unfolding gen_fields(4) by simp
qed

lemma dc_above_100_sign:
  fixes tau t :: real
  assumes "100 < 100 * exp (- t / tau)"
  shows "t < 0 \<or> tau < 0"
proof (rule ccontr)
  assume "\<not> (t < 0 \<or> tau < 0)"
  then have "0 \<le> t" and "0 \<le> tau" by simp_all
  then have "- t / tau \<le> 0"
    by (simp add: divide_nonpos_nonneg)
  then have "exp (- t / tau) \<le> 1" by simp
  with assms show False by simp
qed

lemma tau_negative_sign:
  fixes X R :: real
  assumes "(X / (2 * pi * 60 * R)) * 1000 < 0"
  shows "X < 0 \<or> R < 0"
proof (rule ccontr)
  assume "\<not> (X < 0 \<or> R < 0)"
  then have "0 \<le> X" and "0 \<le> R" by simp_all
  then have "0 \<le> (X / (2 * pi * 60 * R)) * 1000" by simp
  with assms show False by simp
qed


text \<open>
  Claim C10. For a generator with positive MVA, voltage, subtransient reactance
  and X/R ratio and a parting time that is not negative, the time constant is
  positive, the full-precision DC percentage is at most 100 and
  \<open>currentZerosSkipped\<close> is false. Whenever the flag is true, the parting time
  or the time constant is negative, and a negative time constant means a
  negative reactance or resistance.
\<close>

theorem C10_no_zero_skip_for_valid_generator:
  "(0 < GeneratorData.mva g \<and> 0 < voltageKv g \<and> 0 < subtransientReactanceXd g
      \<and> 0 < GeneratorData.xrRatio g \<and> 0 \<le> t \<longrightarrow>
      0 < GenLocals.tauMs (generatorSourceLocals g t)
      \<and> GenLocals.dcPercent (generatorSourceLocals g t) \<le> 100
      \<and> currentZerosSkipped (calculateGeneratorSourceFault g t) = False)
   \<and> (currentZerosSkipped (calculateGeneratorSourceFault g t) \<longrightarrow>
      t < 0 \<or> GenLocals.tauMs (generatorSourceLocals g t) < 0)
   \<and> (GenLocals.tauMs (generatorSourceLocals g t) < 0 \<longrightarrow>
      xdDoublePrimeOhms (generatorSourceLocals g t) < 0 \<or> rGen (generatorSourceLocals g t) < 0)"
proof (intro conjI impI)
  assume h: "0 < GeneratorData.mva g \<and> 0 < voltageKv g \<and> 0 < subtransientReactanceXd g
      \<and> 0 < GeneratorData.xrRatio g \<and> 0 \<le> t"
  then have "0 < xdDoublePrimeOhms (generatorSourceLocals g t)"
    and "0 < rGen (generatorSourceLocals g t)"
    by (simp_all add: gen_positive_impedance)
  then show pos: "0 < GenLocals.tauMs (generatorSourceLocals g t)"
    unfolding gen_fields(7) by (rule tau_pos)
  from h have "0 \<le> t" by simp
  with pos show le: "GenLocals.dcPercent (generatorSourceLocals g t) \<le> 100"
    unfolding gen_fields(8) by (rule dc_le_100)
  then show "currentZerosSkipped (calculateGeneratorSourceFault g t) = False"
    unfolding gen_result_fields(8) gen_fields(12) by simp
next
  assume "currentZerosSkipped (calculateGeneratorSourceFault g t)"
  then have "100 < 100 * exp (- t / GenLocals.tauMs (generatorSourceLocals g t))"
    unfolding gen_result_fields(8) gen_fields(12) gen_fields(8) by simp
  then show "t < 0 \<or> GenLocals.tauMs (generatorSourceLocals g t) < 0"
    by (rule dc_above_100_sign)
next
  assume "GenLocals.tauMs (generatorSourceLocals g t) < 0"
  then show "xdDoublePrimeOhms (generatorSourceLocals g t) < 0 \<or> rGen (generatorSourceLocals g t) < 0"
    unfolding gen_fields(7) by (rule tau_negative_sign)
qed

text \<open>
  The worked generator at 50 ms, at the parting time -50 ms (where the flag is
  set) and with X/R = -30 (where the time constant is negative).
\<close>

lemma example_gen_early_parting_flag:
  "currentZerosSkipped (calculateGeneratorSourceFault exampleGenerator (- 50))"
proof -
  have "0 < (50::real) / GenLocals.tauMs (generatorSourceLocals exampleGenerator (- 50))"
    using example_gen_tau_pos[of "- 50"] by simp
  then have "1 < exp (50 / GenLocals.tauMs (generatorSourceLocals exampleGenerator (- 50)))"
    by simp
  then show ?thesis
    unfolding gen_result_fields(8) gen_fields(12) gen_fields(8) by simp
qed

lemma negative_xr_tau:
  "GenLocals.tauMs (generatorSourceLocals (exampleGenerator\<lparr>GeneratorData.xrRatio := - 30\<rparr>) 50) < 0"
proof -
  have xv: "xdDoublePrimeOhms (generatorSourceLocals (exampleGenerator\<lparr>GeneratorData.xrRatio := - 30\<rparr>) 50) = 0.28566"
    and rv: "rGen (generatorSourceLocals (exampleGenerator\<lparr>GeneratorData.xrRatio := - 30\<rparr>) 50) = - 0.009522"
    by (simp_all add: generatorSourceLocals_def exampleGenerator_def Let_def power2_eq_square)
  have "(0.28566 :: real) / (2 * pi * 60 * (- 0.009522)) < 0"
    by (rule divide_pos_neg) simp_all
  then show ?thesis
    unfolding gen_fields(7) xv rv by simp
qed

theorem C10_no_zero_skip_for_valid_generator_witness:
  "0 < GeneratorData.mva exampleGenerator \<and> 0 < voltageKv exampleGenerator
   \<and> 0 < subtransientReactanceXd exampleGenerator \<and> 0 < GeneratorData.xrRatio exampleGenerator
   \<and> (0 :: real) \<le> 50
   \<and> GenLocals.dcPercent (generatorSourceLocals exampleGenerator 50) \<le> 100
   \<and> currentZerosSkipped (calculateGeneratorSourceFault exampleGenerator 50) = False
   \<and> currentZerosSkipped (calculateGeneratorSourceFault exampleGenerator (- 50))
   \<and> GenLocals.tauMs (generatorSourceLocals (exampleGenerator\<lparr>GeneratorData.xrRatio := - 30\<rparr>) 50) < 0
   \<and> rGen (generatorSourceLocals (exampleGenerator\<lparr>GeneratorData.xrRatio := - 30\<rparr>) 50) < 0"
proof -
  have hyp: "0 < GeneratorData.mva exampleGenerator \<and> 0 < voltageKv exampleGenerator
      \<and> 0 < subtransientReactanceXd exampleGenerator \<and> 0 < GeneratorData.xrRatio exampleGenerator
      \<and> (0 :: real) \<le> 50"
    by (simp add: exampleGenerator_def)
  have x: "\<not> xdDoublePrimeOhms (generatorSourceLocals (exampleGenerator\<lparr>GeneratorData.xrRatio := - 30\<rparr>) 50) < 0"
    by (simp add: generatorSourceLocals_def exampleGenerator_def Let_def power2_eq_square)
  from C10_no_zero_skip_for_valid_generator[of exampleGenerator 50]
    C10_no_zero_skip_for_valid_generator[of "exampleGenerator\<lparr>GeneratorData.xrRatio := - 30\<rparr>" 50]
    hyp x example_gen_early_parting_flag negative_xr_tau
  show ?thesis
    by blast
qed

section \<open>Signs of the outputs\<close>

lemma asym_ge_sym:
  fixes i d :: real
  shows "i \<le> sqrt (i\<^sup>2 + d\<^sup>2)" and "0 \<le> sqrt (i\<^sup>2 + d\<^sup>2)"
  by (rule real_sqrt_sum_squares_ge1) simp

lemma sym_nonneg:
  fixes V z :: real
  assumes "0 \<le> V" and "0 \<le> z"
  shows "0 \<le> V / (sqrt 3 * z)"
  using assms by simp


text \<open>
  Claim C8, as the code has it. With positive resistance and reactance the
  returned asymmetrical current and time constant are not negative and the
  asymmetrical current is at least the symmetrical one. The returned
  symmetrical and peak currents are not negative when, in addition, the base
  voltage is not negative. This holds in both source functions.
\<close>

theorem C8_nonnegative_outputs:
  "(0 < rGen (generatorSourceLocals g t) \<and> 0 < xdDoublePrimeOhms (generatorSourceLocals g t) \<longrightarrow>
      0 \<le> asymmetricalCurrentkA (calculateGeneratorSourceFault g t)
      \<and> 0 \<le> timeConstantMs (calculateGeneratorSourceFault g t)
      \<and> symmetricalCurrentkA (calculateGeneratorSourceFault g t)
          \<le> asymmetricalCurrentkA (calculateGeneratorSourceFault g t))
   \<and> (0 \<le> voltageKv g \<and> 0 < rGen (generatorSourceLocals g t)
        \<and> 0 < xdDoublePrimeOhms (generatorSourceLocals g t) \<longrightarrow>
      0 \<le> symmetricalCurrentkA (calculateGeneratorSourceFault g t)
      \<and> 0 \<le> peakCurrentkA (calculateGeneratorSourceFault g t))
   \<and> (0 < rTotal (systemSourceLocals gen gsu sys t) \<and> 0 < xTotal (systemSourceLocals gen gsu sys t) \<longrightarrow>
      0 \<le> asymmetricalCurrentkA (calculateSystemSourceFault gen gsu sys t)
      \<and> 0 \<le> timeConstantMs (calculateSystemSourceFault gen gsu sys t)
      \<and> symmetricalCurrentkA (calculateSystemSourceFault gen gsu sys t)
          \<le> asymmetricalCurrentkA (calculateSystemSourceFault gen gsu sys t))
   \<and> (0 \<le> secondaryVoltageKv gsu \<and> 0 < rTotal (systemSourceLocals gen gsu sys t)
        \<and> 0 < xTotal (systemSourceLocals gen gsu sys t) \<longrightarrow>
      0 \<le> symmetricalCurrentkA (calculateSystemSourceFault gen gsu sys t)
      \<and> 0 \<le> peakCurrentkA (calculateSystemSourceFault gen gsu sys t))"
proof (intro conjI impI)
  show "0 \<le> asymmetricalCurrentkA (calculateGeneratorSourceFault g t)"
    unfolding gen_result_fields(5) gen_fields(10) by (intro toFixed2_nonneg asym_ge_sym(2))
  show "symmetricalCurrentkA (calculateGeneratorSourceFault g t)
          \<le> asymmetricalCurrentkA (calculateGeneratorSourceFault g t)"
    unfolding gen_result_fields(2,5) gen_fields(10) by (intro toFixed2_mono asym_ge_sym(1))
  show "0 \<le> asymmetricalCurrentkA (calculateSystemSourceFault gen gsu sys t)"
    unfolding sys_result_fields(5) sys_fields(9) by (intro toFixed2_nonneg asym_ge_sym(2))
  show "symmetricalCurrentkA (calculateSystemSourceFault gen gsu sys t)
          \<le> asymmetricalCurrentkA (calculateSystemSourceFault gen gsu sys t)"
    unfolding sys_result_fields(2,5) sys_fields(9) by (intro toFixed2_mono asym_ge_sym(1))
next
  assume "0 < rGen (generatorSourceLocals g t) \<and> 0 < xdDoublePrimeOhms (generatorSourceLocals g t)"
  then have "0 < GenLocals.tauMs (generatorSourceLocals g t)"
    unfolding gen_fields(7) by (intro tau_pos) simp_all
  then show "0 \<le> timeConstantMs (calculateGeneratorSourceFault g t)"
    unfolding gen_result_fields(7) by (intro toFixed2_nonneg) simp
next
  assume "0 < rTotal (systemSourceLocals gen gsu sys t) \<and> 0 < xTotal (systemSourceLocals gen gsu sys t)"
  then have "0 < SysLocals.tauMs (systemSourceLocals gen gsu sys t)"
    unfolding sys_fields(6) by (intro tau_pos) simp_all
  then show "0 \<le> timeConstantMs (calculateSystemSourceFault gen gsu sys t)"
    unfolding sys_result_fields(7) by (intro toFixed2_nonneg) simp
next
  assume "0 \<le> voltageKv g \<and> 0 < rGen (generatorSourceLocals g t)
        \<and> 0 < xdDoublePrimeOhms (generatorSourceLocals g t)"
  then have v: "0 \<le> voltageKv g" by simp
  have "0 \<le> zGen (generatorSourceLocals g t)"
    unfolding gen_fields(5) by simp
  with v have i: "0 \<le> GenLocals.iSym (generatorSourceLocals g t)"
    unfolding gen_fields(6) by (rule sym_nonneg)
  then show "0 \<le> symmetricalCurrentkA (calculateGeneratorSourceFault g t)"
    unfolding gen_result_fields(2) by (rule toFixed2_nonneg)
  from i have "0 \<le> GenLocals.iPeak (generatorSourceLocals g t)"
    unfolding gen_fields(11) by simp
  then show "0 \<le> peakCurrentkA (calculateGeneratorSourceFault g t)"
    unfolding gen_result_fields(4) by (rule toFixed2_nonneg)
next
  assume "0 \<le> secondaryVoltageKv gsu \<and> 0 < rTotal (systemSourceLocals gen gsu sys t)
        \<and> 0 < xTotal (systemSourceLocals gen gsu sys t)"
  then have v: "0 \<le> secondaryVoltageKv gsu" by simp
  have "0 \<le> zTotal (systemSourceLocals gen gsu sys t)"
    unfolding sys_fields(4) by simp
  with v have i: "0 \<le> SysLocals.iSym (systemSourceLocals gen gsu sys t)"
    unfolding sys_fields(5) by (rule sym_nonneg)
  then show "0 \<le> symmetricalCurrentkA (calculateSystemSourceFault gen gsu sys t)"
    unfolding sys_result_fields(2) by (rule toFixed2_nonneg)
  have "0 \<le> 1 + exp (- 10 / SysLocals.tauMs (systemSourceLocals gen gsu sys t))"
    by (simp add: add_nonneg_nonneg)
  with i have "0 \<le> SysLocals.iPeak (systemSourceLocals gen gsu sys t)"
    unfolding sys_fields(10) by (simp add: mult_nonneg_nonneg)
  then show "0 \<le> peakCurrentkA (calculateSystemSourceFault gen gsu sys t)"
    unfolding sys_result_fields(4) by (rule toFixed2_nonneg)
qed

text \<open>The worked generator and the starting transformer and grid, at 50 ms.\<close>

lemma example_gen_rx_pos:
  "0 < rGen (generatorSourceLocals exampleGenerator t)"
  "0 < xdDoublePrimeOhms (generatorSourceLocals exampleGenerator t)"
  unfolding example_gen_xr by simp_all

theorem C8_nonnegative_outputs_witness:
  "0 \<le> voltageKv exampleGenerator
   \<and> 0 < rGen (generatorSourceLocals exampleGenerator 50)
   \<and> 0 < xdDoublePrimeOhms (generatorSourceLocals exampleGenerator 50)
   \<and> 0 \<le> symmetricalCurrentkA (calculateGeneratorSourceFault exampleGenerator 50)
   \<and> 0 \<le> asymmetricalCurrentkA (calculateGeneratorSourceFault exampleGenerator 50)
   \<and> 0 \<le> peakCurrentkA (calculateGeneratorSourceFault exampleGenerator 50)
   \<and> 0 \<le> timeConstantMs (calculateGeneratorSourceFault exampleGenerator 50)
   \<and> symmetricalCurrentkA (calculateGeneratorSourceFault exampleGenerator 50)
       \<le> asymmetricalCurrentkA (calculateGeneratorSourceFault exampleGenerator 50)
   \<and> 0 \<le> secondaryVoltageKv exampleTransformer
   \<and> 0 < rTotal (systemSourceLocals exampleGenerator exampleTransformer exampleSystem 50)
   \<and> 0 < xTotal (systemSourceLocals exampleGenerator exampleTransformer exampleSystem 50)
   \<and> 0 \<le> symmetricalCurrentkA (calculateSystemSourceFault exampleGenerator exampleTransformer exampleSystem 50)
   \<and> 0 \<le> asymmetricalCurrentkA (calculateSystemSourceFault exampleGenerator exampleTransformer exampleSystem 50)
   \<and> 0 \<le> peakCurrentkA (calculateSystemSourceFault exampleGenerator exampleTransformer exampleSystem 50)
   \<and> 0 \<le> timeConstantMs (calculateSystemSourceFault exampleGenerator exampleTransformer exampleSystem 50)
   \<and> symmetricalCurrentkA (calculateSystemSourceFault exampleGenerator exampleTransformer exampleSystem 50)
       \<le> asymmetricalCurrentkA (calculateSystemSourceFault exampleGenerator exampleTransformer exampleSystem 50)"
proof -
  have v: "0 \<le> voltageKv exampleGenerator" "0 \<le> secondaryVoltageKv exampleTransformer"
    by (simp_all add: exampleGenerator_def exampleTransformer_def)
  from C8_nonnegative_outputs[of exampleGenerator 50 exampleGenerator exampleTransformer exampleSystem]
    v example_gen_rx_pos[of 50] example_sys_rx_pos[of exampleGenerator 50]
  show ?thesis
    by blast
qed

text \<open>
  The starting transformer with its secondary voltage entered as -13.8 kV: the
  squares make both impedances positive, and the symmetrical current is the
  voltage over a positive quantity.
\<close>

lemma weighted_le_one:
  fixes c d :: real
  assumes "c \<le> 1" and "d \<le> 1"
  shows "0.019044 * c + 0.1587 * d \<le> 1"
  using assms by simp

lemma negative_voltage_rx:
  "0 < rTotal (systemSourceLocals exampleGenerator
          (exampleTransformer\<lparr>secondaryVoltageKv := - 13.8\<rparr>) exampleSystem 50)"
  "rTotal (systemSourceLocals exampleGenerator
          (exampleTransformer\<lparr>secondaryVoltageKv := - 13.8\<rparr>) exampleSystem 50) \<le> 1"
  "0 < xTotal (systemSourceLocals exampleGenerator
          (exampleTransformer\<lparr>secondaryVoltageKv := - 13.8\<rparr>) exampleSystem 50)"
  "xTotal (systemSourceLocals exampleGenerator
          (exampleTransformer\<lparr>secondaryVoltageKv := - 13.8\<rparr>) exampleSystem 50) \<le> 1"
proof -
  have c: "0 < cos (arctan (15::real))" "0 < cos (arctan (40::real))"
    by (rule cos_arctan_pos)+
  have s: "0 < sin (arctan (15::real))" "0 < sin (arctan (40::real))"
    by (rule sin_arctan_pos, simp)+
  have r: "rTotal (systemSourceLocals exampleGenerator
          (exampleTransformer\<lparr>secondaryVoltageKv := - 13.8\<rparr>) exampleSystem 50)
        = 0.019044 * cos (arctan 15) + 0.1587 * cos (arctan 40)"
    unfolding sys_fields(2) by (simp add: exampleTransformer_def exampleSystem_def power2_eq_square)
  have x: "xTotal (systemSourceLocals exampleGenerator
          (exampleTransformer\<lparr>secondaryVoltageKv := - 13.8\<rparr>) exampleSystem 50)
        = 0.019044 * sin (arctan 15) + 0.1587 * sin (arctan 40)"
    unfolding sys_fields(3) by (simp add: exampleTransformer_def exampleSystem_def power2_eq_square)
  show "0 < rTotal (systemSourceLocals exampleGenerator
          (exampleTransformer\<lparr>secondaryVoltageKv := - 13.8\<rparr>) exampleSystem 50)"
    unfolding r using c by (intro add_pos_pos mult_pos_pos) simp_all
  show "0 < xTotal (systemSourceLocals exampleGenerator
          (exampleTransformer\<lparr>secondaryVoltageKv := - 13.8\<rparr>) exampleSystem 50)"
    unfolding x using s by (intro add_pos_pos mult_pos_pos) simp_all
  show "rTotal (systemSourceLocals exampleGenerator
          (exampleTransformer\<lparr>secondaryVoltageKv := - 13.8\<rparr>) exampleSystem 50) \<le> 1"
    unfolding r by (rule weighted_le_one) (rule cos_le_one)+
  show "xTotal (systemSourceLocals exampleGenerator
          (exampleTransformer\<lparr>secondaryVoltageKv := - 13.8\<rparr>) exampleSystem 50) \<le> 1"
    unfolding x by (rule weighted_le_one) (rule sin_le_one)+
qed

lemma negative_voltage_iSym:
  "SysLocals.iSym (systemSourceLocals exampleGenerator
      (exampleTransformer\<lparr>secondaryVoltageKv := - 13.8\<rparr>) exampleSystem 50) \<le> - (1 / 200)"
proof -
  let ?l = "systemSourceLocals exampleGenerator
      (exampleTransformer\<lparr>secondaryVoltageKv := - 13.8\<rparr>) exampleSystem 50"
  note rx = negative_voltage_rx
  have "zTotal ?l \<le> \<bar>rTotal ?l\<bar> + \<bar>xTotal ?l\<bar>"
    unfolding sys_fields(4) using sqrt_sum_squares_le_sum_abs[of "rTotal ?l" "xTotal ?l"]
    by (simp add: power2_eq_square)
  with rx have zle: "zTotal ?l \<le> 2" by simp
  have "0 < rTotal ?l * rTotal ?l + xTotal ?l * xTotal ?l"
    using rx(1,3) by (intro add_pos_pos mult_pos_pos)
  then have zpos: "0 < zTotal ?l"
    unfolding sys_fields(4) by simp
  have "sqrt 3 \<le> 2"
    by (rule real_le_lsqrt) simp_all
  with zle zpos have "sqrt 3 * zTotal ?l \<le> 2 * 2"
    by (intro mult_mono) simp_all
  moreover from zpos have dpos: "0 < sqrt 3 * zTotal ?l" by simp
  ultimately have "13.8 / (sqrt 3 * zTotal ?l) \<ge> 1 / 200"
    by (simp add: field_simps)
  moreover have "SysLocals.iSym ?l = - (13.8 / (sqrt 3 * zTotal ?l))"
    unfolding sys_fields(5) by (simp add: exampleTransformer_def)
  ultimately show ?thesis by simp
qed


text \<open>
  Claim C8, as the specification words it: here resistance and reactance are
  positive and the symmetrical current returned is negative.
\<close>

theorem C8_negative_voltage_counterexample:
  "0 < rTotal (systemSourceLocals exampleGenerator
          (exampleTransformer\<lparr>secondaryVoltageKv := - 13.8\<rparr>) exampleSystem 50)
   \<and> 0 < xTotal (systemSourceLocals exampleGenerator
          (exampleTransformer\<lparr>secondaryVoltageKv := - 13.8\<rparr>) exampleSystem 50)
   \<and> symmetricalCurrentkA (calculateSystemSourceFault exampleGenerator
          (exampleTransformer\<lparr>secondaryVoltageKv := - 13.8\<rparr>) exampleSystem 50) < 0"
  using negative_voltage_rx(1,3) toFixed2_negative[OF negative_voltage_iSym]
  unfolding sys_result_fields(2) by simp

section \<open>Selection of the standard ratings\<close>

lemma find_ge_sorted:
  fixes m :: real
  assumes "sorted xs" and "find (\<lambda>k. k \<ge> m) xs = Some x"
  shows "x \<in> set xs \<and> m \<le> x \<and> (\<forall>k\<in>set xs. m \<le> k \<longrightarrow> x \<le> k)"
  using assms
proof (induction xs)
  case Nil
  then show ?case by simp
next
  case (Cons a xs)
  show ?case
  proof (cases "m \<le> a")
    case True
    with Cons.prems show ?thesis by auto
  next
    case False
    with Cons.prems have "sorted xs" and "find (\<lambda>k. k \<ge> m) xs = Some x"
      by simp_all
    then have "x \<in> set xs \<and> m \<le> x \<and> (\<forall>k\<in>set xs. m \<le> k \<longrightarrow> x \<le> k)"
      by (rule Cons.IH)
    with False show ?thesis by auto
  qed
qed

lemma stdBreakKA_sorted: "sorted_wrt (<) stdBreakKA"
  by (simp add: stdBreakKA_def)

lemma stdBreakKA_sorted_le: "sorted stdBreakKA"
  by (simp add: stdBreakKA_def)

lemma stdBreakKA_last: "stdBreakKA ! (length stdBreakKA - 1) = 200"
  by (simp add: stdBreakKA_def)

lemma stdBreakKA_nonzero: "k \<in> set stdBreakKA \<Longrightarrow> k \<noteq> 0"
  by (auto simp add: stdBreakKA_def)

lemma selectSymKA_hit:
  assumes "\<exists>k\<in>set stdBreakKA. m \<le> k"
  shows "selectSymKA m \<in> set stdBreakKA \<and> m \<le> selectSymKA m
         \<and> (\<forall>k\<in>set stdBreakKA. m \<le> k \<longrightarrow> selectSymKA m \<le> k)"
proof -
  from assms have "find (\<lambda>k. k \<ge> m) stdBreakKA \<noteq> None"
    by (auto simp add: find_None_iff)
  then obtain x where f: "find (\<lambda>k. k \<ge> m) stdBreakKA = Some x"
    by auto
  from stdBreakKA_sorted_le f
  have p: "x \<in> set stdBreakKA \<and> m \<le> x \<and> (\<forall>k\<in>set stdBreakKA. m \<le> k \<longrightarrow> x \<le> k)"
    by (rule find_ge_sorted)
  then have "x \<noteq> 0"
    by (simp add: stdBreakKA_nonzero)
  with f have "selectSymKA m = x"
    by (simp add: selectSymKA_def)
  with p show ?thesis by simp
qed

lemma selectSymKA_miss:
  assumes "\<not> (\<exists>k\<in>set stdBreakKA. m \<le> k)"
  shows "selectSymKA m = 200"
proof -
  from assms have "find (\<lambda>k. k \<ge> m) stdBreakKA = None"
    by (simp add: find_None_iff)
  then show ?thesis
    using stdBreakKA_last by (simp add: selectSymKA_def)
qed

lemma selectSymKA_45: "selectSymKA 45 = 50"
  by (simp add: selectSymKA_def stdBreakKA_def)

lemma selectSymKA_205: "selectSymKA 205 = 200"
  by (simp add: selectSymKA_def stdBreakKA_def)

lemma round_up_500:
  fixes m :: real
  shows "m \<le> of_int \<lceil>m / 500\<rceil> * 500"
    and "of_int \<lceil>m / 500\<rceil> * 500 \<le> (of_int k * 500 :: real) \<longleftrightarrow> m \<le> of_int k * 500"
proof -
  have "m / 500 \<le> of_int \<lceil>m / 500\<rceil>"
    by (rule le_of_int_ceiling)
  then have "m / 500 * 500 \<le> of_int \<lceil>m / 500\<rceil> * 500"
    by (rule mult_right_mono) simp
  then show "m \<le> of_int \<lceil>m / 500\<rceil> * 500"
    by simp
  have "of_int \<lceil>m / 500\<rceil> * 500 \<le> of_int k * (500 :: real) \<longleftrightarrow> \<lceil>m / 500\<rceil> \<le> k"
    by simp
  also have "\<dots> \<longleftrightarrow> m / 500 \<le> of_int k"
    by (rule ceiling_le_iff)
  also have "\<dots> \<longleftrightarrow> m \<le> of_int k * 500"
    by (simp add: field_simps)
  finally show "of_int \<lceil>m / 500\<rceil> * 500 \<le> (of_int k * 500 :: real) \<longleftrightarrow> m \<le> of_int k * 500" .
qed

lemma ratings_fields:
  "calc (continuous (ratings sysResult genResult genData marginPercent))
     = (GeneratorData.mva genData * 1000) / (sqrt 3 * voltageKv genData)"
  "margin (continuous (ratings sysResult genResult genData marginPercent))
     = calc (continuous (ratings sysResult genResult genData marginPercent)) * (1 + marginPercent / 100)"
  "selected (continuous (ratings sysResult genResult genData marginPercent))
     = of_int \<lceil>margin (continuous (ratings sysResult genResult genData marginPercent)) / 500\<rceil> * 500"
  "calc (sym (ratings sysResult genResult genData marginPercent))
     = max (symmetricalCurrentkA sysResult) (symmetricalCurrentkA genResult)"
  "margin (sym (ratings sysResult genResult genData marginPercent))
     = calc (sym (ratings sysResult genResult genData marginPercent)) * (1 + marginPercent / 100)"
  "selected (sym (ratings sysResult genResult genData marginPercent))
     = selectSymKA (margin (sym (ratings sysResult genResult genData marginPercent)))"
  by (simp_all only: ratings_def Let_def Ratings.select_convs RatingRow.select_convs)


text \<open>
  Claim C3. The continuous current is \<open>MVA\<cdot>1000 / (\<surd>3\<cdot>kV)\<close>, the margin
  factor is applied to it, and the selected value is a multiple of 500 that is
  at least the margin-applied value and at most every other such multiple. The
  symmetrical row takes the larger of the two symmetrical currents, applies the
  margin, and selects from the ascending list 31.5, 40, 50, 63, 72, 80, 90,
  100, 120, 140, 160, 190, 200: the least entry that is at least the
  margin-applied value when there is one, and 200 when there is none. A
  margin-applied 45 kA selects 50 kA and 205 kA selects 200 kA.
\<close>

theorem C3_rating_selection:
  "(let r = ratings sysResult genResult genData marginPercent
    in calc (continuous r) = (GeneratorData.mva genData * 1000) / (sqrt 3 * voltageKv genData)
       \<and> margin (continuous r) = calc (continuous r) * (1 + marginPercent / 100)
       \<and> (\<exists>k :: int. selected (continuous r) = of_int k * 500)
       \<and> margin (continuous r) \<le> selected (continuous r)
       \<and> (\<forall>k :: int. margin (continuous r) \<le> of_int k * 500
             \<longrightarrow> selected (continuous r) \<le> of_int k * 500)
       \<and> calc (sym r) = max (symmetricalCurrentkA sysResult) (symmetricalCurrentkA genResult)
       \<and> margin (sym r) = calc (sym r) * (1 + marginPercent / 100)
       \<and> ((\<exists>k\<in>set stdBreakKA. margin (sym r) \<le> k) \<longrightarrow>
             selected (sym r) \<in> set stdBreakKA \<and> margin (sym r) \<le> selected (sym r)
             \<and> (\<forall>k\<in>set stdBreakKA. margin (sym r) \<le> k \<longrightarrow> selected (sym r) \<le> k))
       \<and> (\<not> (\<exists>k\<in>set stdBreakKA. margin (sym r) \<le> k) \<longrightarrow> selected (sym r) = 200)
       \<and> selected (sym r) = selectSymKA (margin (sym r)))
   \<and> stdBreakKA = [31.5, 40, 50, 63, 72, 80, 90, 100, 120, 140, 160, 190, 200]
   \<and> sorted_wrt (<) stdBreakKA
   \<and> selectSymKA 45 = 50 \<and> selectSymKA 205 = 200"
  unfolding Let_def
proof (intro conjI impI allI)
  let ?r = "ratings sysResult genResult genData marginPercent"
  show "\<exists>k :: int. selected (continuous ?r) = of_int k * 500"
    unfolding ratings_fields(3) by (rule exI) (rule refl)
  show "margin (continuous ?r) \<le> selected (continuous ?r)"
    unfolding ratings_fields(3) by (rule round_up_500(1))
  show "selected (continuous ?r) \<le> of_int k * 500"
    if "margin (continuous ?r) \<le> of_int k * 500" for k :: int
    using that unfolding ratings_fields(3) by (simp only: round_up_500(2))
  show "selected (sym ?r) \<in> set stdBreakKA" "margin (sym ?r) \<le> selected (sym ?r)"
    "\<forall>k\<in>set stdBreakKA. margin (sym ?r) \<le> k \<longrightarrow> selected (sym ?r) \<le> k"
    if "\<exists>k\<in>set stdBreakKA. margin (sym ?r) \<le> k"
    using selectSymKA_hit[OF that] unfolding ratings_fields(6) by simp_all
  show "selected (sym ?r) = 200" if "\<not> (\<exists>k\<in>set stdBreakKA. margin (sym ?r) \<le> k)"
    using selectSymKA_miss[OF that] unfolding ratings_fields(6) .
  show "stdBreakKA = [31.5, 40, 50, 63, 72, 80, 90, 100, 120, 140, 160, 190, 200]"
    by (rule stdBreakKA_def)
  show "sorted_wrt (<) stdBreakKA"
    by (rule stdBreakKA_sorted)
qed (simp_all only: ratings_fields selectSymKA_45 selectSymKA_205)

text \<open>
  Results with 45 kA and with 205 kA as the larger symmetrical current, for the
  worked generator and no margin: 50 kA and 200 kA are selected, and the
  continuous current of about 4184 A selects 4500 A.
\<close>

lemma example_continuous_bounds:
  "4000 < (100 * 1000) / (sqrt 3 * 13.8) \<and> (100 * 1000) / (sqrt 3 * 13.8) \<le> (4500 :: real)"
proof -
  have lo: "1.62 \<le> sqrt 3"
    by (rule real_le_rsqrt) (simp add: power2_eq_square)
  have hi: "sqrt 3 < 1.8"
    by (rule real_less_lsqrt) (simp_all add: power2_eq_square)
  have pos: "0 < sqrt 3 * (13.8 :: real)"
    by simp
  from hi have "4000 * (sqrt 3 * 13.8) < (100 * 1000 :: real)"
    by simp
  with pos have a: "4000 < (100 * 1000) / (sqrt 3 * 13.8)"
    by (simp only: pos_less_divide_eq)
  from lo have "(100 * 1000 :: real) \<le> 4500 * (sqrt 3 * 13.8)"
    by simp
  with pos have b: "(100 * 1000) / (sqrt 3 * 13.8) \<le> (4500 :: real)"
    by (simp only: pos_divide_le_eq)
  from a b show ?thesis ..
qed

theorem C3_rating_selection_witness:
  "(50 :: real) \<in> set stdBreakKA
   \<and> margin (sym (ratings (exampleResult System 45 60 120) (exampleResult Generator 40 55 110)
         exampleGenerator 0)) = 45
   \<and> selected (sym (ratings (exampleResult System 45 60 120) (exampleResult Generator 40 55 110)
         exampleGenerator 0)) = 50
   \<and> margin (sym (ratings (exampleResult System 205 260 520) (exampleResult Generator 40 55 110)
         exampleGenerator 0)) = 205
   \<and> selected (sym (ratings (exampleResult System 205 260 520) (exampleResult Generator 40 55 110)
         exampleGenerator 0)) = 200
   \<and> 4000 < margin (continuous (ratings (exampleResult System 45 60 120)
         (exampleResult Generator 40 55 110) exampleGenerator 0))
   \<and> selected (continuous (ratings (exampleResult System 45 60 120)
         (exampleResult Generator 40 55 110) exampleGenerator 0)) = 4500"
proof -
  let ?a = "ratings (exampleResult System 45 60 120) (exampleResult Generator 40 55 110)
         exampleGenerator 0"
  let ?b = "ratings (exampleResult System 205 260 520) (exampleResult Generator 40 55 110)
         exampleGenerator 0"
  note A = C3_rating_selection[of "exampleResult System 45 60 120"
      "exampleResult Generator 40 55 110" exampleGenerator 0, unfolded Let_def]
  note B = C3_rating_selection[of "exampleResult System 205 260 520"
      "exampleResult Generator 40 55 110" exampleGenerator 0, unfolded Let_def]
  have in50: "(50 :: real) \<in> set stdBreakKA"
    by (simp add: stdBreakKA_def)
  have ma: "margin (sym ?a) = 45"
    using A by (simp add: exampleResult_def)
  have mb: "margin (sym ?b) = 205"
    using B by (simp add: exampleResult_def)
  from in50 ma have "\<exists>k\<in>set stdBreakKA. margin (sym ?a) \<le> k"
    by (intro bexI[of _ 50]) simp_all
  with A have sa: "selected (sym ?a) \<in> set stdBreakKA" "margin (sym ?a) \<le> selected (sym ?a)"
    "\<forall>k\<in>set stdBreakKA. margin (sym ?a) \<le> k \<longrightarrow> selected (sym ?a) \<le> k"
    by blast+
  from sa(3) in50 ma have "selected (sym ?a) \<le> 50"
    by simp
  with sa(1,2) ma have a50: "selected (sym ?a) = 50"
    by (auto simp add: stdBreakKA_def)
  have "\<not> (\<exists>k\<in>set stdBreakKA. margin (sym ?b) \<le> k)"
    unfolding mb by (simp add: stdBreakKA_def)
  with B have b200: "selected (sym ?b) = 200"
    by blast
  have mc: "margin (continuous ?a) = (100 * 1000) / (sqrt 3 * 13.8)"
    using A by (simp add: exampleGenerator_def)
  with example_continuous_bounds have cb: "4000 < margin (continuous ?a)" "margin (continuous ?a) \<le> 4500"
    by simp_all
  from A obtain k :: int where k: "selected (continuous ?a) = of_int k * 500"
    by blast
  from A have ge: "margin (continuous ?a) \<le> selected (continuous ?a)"
    by blast
  from A have least: "margin (continuous ?a) \<le> of_int 9 * 500
      \<longrightarrow> selected (continuous ?a) \<le> of_int 9 * 500"
    by blast
  with cb(2) have up: "selected (continuous ?a) \<le> 4500"
    by simp
  from cb(1) ge k have "(4000 :: real) < of_int k * 500"
    by simp
  then have "(8 :: real) < of_int k"
    by simp
  then have "9 \<le> k"
    by linarith
  moreover from up k have "of_int k * 500 \<le> (4500 :: real)"
    by simp
  then have "of_int k \<le> (9 :: real)"
    by simp
  then have "k \<le> 9"
    by linarith
  ultimately have "k = 9"
    by simp
  with k have c4500: "selected (continuous ?a) = 4500"
    by simp
  from in50 ma a50 mb b200 cb(1) c4500 show ?thesis
    by blast
qed

section \<open>The sampled waveform\<close>

lemma waveformSample_fields:
  "time (waveformSample i tau w t) = t"
  "dc (waveformSample i tau w t) = sqrt 2 * i * exp (- t / tau)"
  "current (waveformSample i tau w t)
     = sqrt 2 * i * sin (w * (t / 1000)) + sqrt 2 * i * exp (- t / tau)"
  "envelopePos (waveformSample i tau w t) = dc (waveformSample i tau w t) + sqrt 2 * i"
  "envelopeNeg (waveformSample i tau w t) = dc (waveformSample i tau w t) - sqrt 2 * i"
  by (simp_all only: waveformSample_def Let_def WaveformSample.select_convs)

lemma waveformLoop_from:
  assumes "0 \<le> T"
  shows "waveformLoop i tau w T data (real n)
           = data @ map (\<lambda>k. waveformSample i tau w (real k)) [n ..< nat \<lfloor>T\<rfloor> + 1]"
proof (induction "nat \<lfloor>T\<rfloor> + 1 - n" arbitrary: n data)
  case 0
  then have "nat \<lfloor>T\<rfloor> + 1 \<le> n"
    by simp
  then have "\<lfloor>T\<rfloor> < int n"
    by linarith
  then have "T < of_int (int n)"
    by (simp only: floor_less_iff)
  then have "T < real n"
    by simp
  moreover from \<open>nat \<lfloor>T\<rfloor> + 1 \<le> n\<close> have "[n ..< nat \<lfloor>T\<rfloor> + 1] = []"
    by simp
  ultimately show ?case
    by simp
next
  case (Suc d)
  then have lt: "n < nat \<lfloor>T\<rfloor> + 1"
    by simp
  with assms have "int n \<le> \<lfloor>T\<rfloor>"
    by linarith
  then have le: "real n \<le> T"
    by (simp add: le_floor_iff)
  from Suc have d: "d = nat \<lfloor>T\<rfloor> + 1 - Suc n"
    by simp
  have "waveformLoop i tau w T data (real n)
          = waveformLoop i tau w T (data @ [waveformSample i tau w (real n)]) (real (Suc n))"
    using le by (simp add: add.commute)
  also have "\<dots> = (data @ [waveformSample i tau w (real n)])
                     @ map (\<lambda>k. waveformSample i tau w (real k)) [Suc n ..< nat \<lfloor>T\<rfloor> + 1]"
    by (rule Suc.hyps(1)[OF d])
  also have "\<dots> = data @ map (\<lambda>k. waveformSample i tau w (real k)) [n ..< nat \<lfloor>T\<rfloor> + 1]"
    by (simp only: upt_conv_Cons[OF lt] list.map append_assoc append_Cons append_Nil)
  finally show ?case .
qed

lemma generateWaveformData_samples:
  assumes "0 < freq"
  shows "generateWaveformData i tau freq
           = Some (map (\<lambda>k. waveformSample i tau (2 * pi * freq) (real k))
                     [0 ..< nat \<lfloor>5 * (1000 / freq)\<rfloor> + 1])"
proof -
  from assms have "0 \<le> 5 * (1000 / freq)"
    by simp
  then have "waveformLoop i tau (2 * pi * freq) (5 * (1000 / freq)) [] (real 0)
               = [] @ map (\<lambda>k. waveformSample i tau (2 * pi * freq) (real k))
                     [0 ..< nat \<lfloor>5 * (1000 / freq)\<rfloor> + 1]"
    by (rule waveformLoop_from)
  with assms show ?thesis
    by (simp add: generateWaveformData_def Let_def)
qed

lemma five_cycles_floor: "nat \<lfloor>5 * (1000 / 60) :: real\<rfloor> + 1 = 84"
proof -
  have "\<lfloor>5 * (1000 / 60) :: real\<rfloor> = 83"
    by (simp add: floor_eq_iff)
  then show ?thesis by simp
qed

lemma example_waveform:
  "generateWaveformData 20 50 60
     = Some (map (\<lambda>k. waveformSample 20 50 (2 * pi * 60) (real k)) [0 ..< 84])"
  using generateWaveformData_samples[of 60 20 50] by (simp only: five_cycles_floor)


text \<open>
  Claim C9, as the code has it. For a symmetrical current of 20 kA, a time
  constant of 50 ms and 60 Hz the sampler returns 84 samples, which is the
  integer part of \<open>5\<cdot>(1000/60)\<close> plus one. Their times are 0, 1, ..., 83 ms, so
  they are 1 ms apart and the last one lies before the end of the fifth period
  at 83.33 ms. The DC term of the first sample is \<open>\<surd>2\<cdot>20\<close>.
\<close>

theorem C9_waveform_samples:
  "\<exists>samples. generateWaveformData 20 50 60 = Some samples
     \<and> length samples = 84
     \<and> length samples = nat \<lfloor>5 * (1000 / 60) :: real\<rfloor> + 1
     \<and> map time samples = map real [0 ..< 84]
     \<and> time (last samples) = 83
     \<and> (83 :: real) < 5 * (1000 / 60)
     \<and> dc (samples ! 0) = sqrt 2 * 20"
proof (intro exI conjI)
  let ?s = "map (\<lambda>k. waveformSample 20 50 (2 * pi * 60) (real k)) [0 ..< 84]"
  show "generateWaveformData 20 50 60 = Some ?s"
    by (rule example_waveform)
  show "length ?s = 84"
    by simp
  show "length ?s = nat \<lfloor>5 * (1000 / 60) :: real\<rfloor> + 1"
    by (simp only: five_cycles_floor) simp
  show "map time ?s = map real [0 ..< 84]"
    by (simp only: map_map comp_def waveformSample_fields(1))
  have "last ?s = waveformSample 20 50 (2 * pi * 60) (real (last [0 ..< 84]))"
    by (rule last_map) simp
  then show "time (last ?s) = 83"
    by (simp add: waveformSample_fields(1))
  show "(83 :: real) < 5 * (1000 / 60)"
    by simp
  have "?s ! 0 = waveformSample 20 50 (2 * pi * 60) (real ([0 ..< 84] ! 0))"
    by (rule nth_map) simp
  then show "dc (?s ! 0) = sqrt 2 * 20"
    by (simp add: waveformSample_fields(2))
qed


text \<open>
  Claim C9, as the specification words it: the sampler returns, and the number
  of samples is not \<open>5\<cdot>(1000/60) + 1\<close>, which is not a whole number.
\<close>

theorem C9_sample_count_counterexample:
  "generateWaveformData 20 50 60 \<noteq> None
   \<and> real (length (the (generateWaveformData 20 50 60))) \<noteq> 5 * (1000 / 60) + 1"
  by (simp add: example_waveform)

end
